theory Spec2Isabelle
  imports Complex_Main "HOL-Library.Sublist"
begin

section \<open>Values of the Python program\<close>

text \<open>
  A Python \<open>str\<close> is a sequence of Unicode code points; \<open>len\<close> and the column type
  \<open>String(100)\<close> both count code points, so a string is a list of code points here.
  \<open>u\<close> writes an ASCII literal as such a list.
\<close>

type_synonym pystr = "nat list"

definition u :: "string \<Rightarrow> pystr" where
  "u s = map of_char s"

text \<open>
  \<open>str.isspace\<close> on one code point: the characters Python's \<open>str.strip()\<close>
  removes when it is called without an argument.
\<close>

definition isspace :: "nat \<Rightarrow> bool" where
  "isspace c \<longleftrightarrow>
     (9 \<le> c \<and> c \<le> 13) \<or> (28 \<le> c \<and> c \<le> 32) \<or> c = 133 \<or> c = 160 \<or> c = 5760 \<or>
     (8192 \<le> c \<and> c \<le> 8202) \<or> c = 8232 \<or> c = 8233 \<or> c = 8239 \<or> c = 8287 \<or> c = 12288"

definition strip :: "pystr \<Rightarrow> pystr" where
  "strip s = rev (dropWhile isspace (rev (dropWhile isspace s)))"

text \<open>
  A Python \<open>float\<close> is an IEEE double. The program never computes with a price: it
  compares it with zero, stores it and prints it. Every finite double is a rational
  number, so the finite values are over-approximated by \<open>rat\<close>; the two infinities and
  NaN are values of their own. \<open>float_lt0\<close> is \<open>price < 0\<close> and \<open>float_ge0\<close> is
  \<open>price >= 0\<close> as Python evaluates them: both are false on NaN.
\<close>

datatype pyfloat = Finite rat | PosInf | NegInf | NaN

fun float_lt0 :: "pyfloat \<Rightarrow> bool" where
  "float_lt0 (Finite r) = (r < 0)"
| "float_lt0 NegInf = True"
| "float_lt0 PosInf = False"
| "float_lt0 NaN = False"

fun float_ge0 :: "pyfloat \<Rightarrow> bool" where
  "float_ge0 (Finite r) = (0 \<le> r)"
| "float_ge0 PosInf = True"
| "float_ge0 NegInf = False"
| "float_ge0 NaN = False"

text \<open>\<open>str(n)\<close> for a Python \<open>int\<close>: the decimal digits, with a minus sign.\<close>

fun digits :: "nat \<Rightarrow> pystr" where
  "digits n = (if n < 10 then [48 + n] else digits (n div 10) @ [48 + n mod 10])"

definition str_int :: "int \<Rightarrow> pystr" where
  "str_int i = (if i < 0 then 45 # digits (nat (- i)) else digits (nat i))"

text \<open>
  The exceptions of the program. \<open>ValueError\<close> is raised by the validation,
  \<open>SQLAlchemyError\<close> by the store, and \<open>Exception\<close> is the generic exception
  \<open>raise Exception(f"Database error: {error}")\<close> of tp1.py. Each carries its message
  (\<open>str(e)\<close>).
\<close>

datatype exn = ValueError pystr | SQLAlchemyError pystr | Exception pystr

section \<open>The Product model and the store\<close>

text \<open>
  \<open>class Product(Base)\<close>: a row of the table \<open>products\<close>. The primary key is named
  \<open>pid\<close> here (\<open>id\<close> is the identity function of HOL).
\<close>

record product =
  pid :: int
  name :: pystr
  price :: pyfloat
  quantity :: int

text \<open>
  A session is SQLAlchemy's unit of work. Every operation of the program opens its own
  session and registers at most one change in it: the object given to
  \<open>session.add\<close>, the three attribute assignments on a loaded object, or the object
  given to \<open>session.delete\<close>. \<open>key\<close> is the primary key of the object the session
  tracks, known once the object has been loaded or its INSERT has been flushed.
\<close>

datatype change = Insert pystr pyfloat int | Modify int pystr pyfloat int | Remove int

record session =
  key :: "int option"
  pending :: "change option"

text \<open>The calls on a session, as they appear in the log of the world.\<close>

datatype event =
  ESessionLocal | EQuery | EAdd | ESetAttrs | EDelete | ECommit | ERefresh | ERollback | EClose

text \<open>
  The world an operation runs in: the committed rows of \<open>products\<close> in table order,
  the next value of the primary key's sequence, the session of the running operation,
  the number of sessions opened and not yet closed, and the log of the session calls
  made so far.
\<close>

record world =
  rows :: "product list"
  next_id :: int
  cur :: session
  open_sessions :: nat
  log :: "event list"

text \<open>
  The store is outside the program. Which of its calls fail is an input of every
  operation: \<open>f c = Some m\<close> means that the call \<open>c\<close> raises \<open>SQLAlchemyError\<close>
  with message \<open>m\<close> (connectivity loss, a rejected statement, a failed COMMIT). The
  calls that send statements to the database can fail this way: a query, a commit and a
  refresh. \<open>SessionLocal()\<close>, \<open>session.add\<close>, \<open>session.delete\<close> and an attribute
  assignment send nothing; \<open>session.rollback()\<close> and \<open>session.close()\<close> are taken
  not to raise. Exceptions of the driver that are not a \<open>SQLAlchemyError\<close> are outside
  the model.
\<close>

datatype call = Query | Commit | Refresh

type_synonym faults = "call \<Rightarrow> pystr option"

definition no_faults :: faults where
  "no_faults = (\<lambda>c. None)"

subsection \<open>Programs: state and exceptions\<close>

type_synonym 'a prog = "world \<Rightarrow> (exn + 'a) \<times> world"

definition ret :: "'a \<Rightarrow> 'a prog" where
  "ret x = (\<lambda>w. (Inr x, w))"

definition raise :: "exn \<Rightarrow> 'a prog" where
  "raise e = (\<lambda>w. (Inl e, w))"

definition bind :: "'a prog \<Rightarrow> ('a \<Rightarrow> 'b prog) \<Rightarrow> 'b prog" where
  "bind m k = (\<lambda>w. case m w of (Inl e, w') \<Rightarrow> (Inl e, w') | (Inr x, w') \<Rightarrow> k x w')"

text \<open>
  \<open>try: m except ... as e: h e\<close>. The handler receives every exception and re-raises
  the ones its \<open>except\<close> clause does not name.
\<close>

definition try_except :: "'a prog \<Rightarrow> (exn \<Rightarrow> 'a prog) \<Rightarrow> 'a prog" where
  "try_except m h = (\<lambda>w. case m w of (Inl e, w') \<Rightarrow> h e w' | (Inr x, w') \<Rightarrow> (Inr x, w'))"

text \<open>
  \<open>try: m finally: fin\<close>: \<open>fin\<close> runs on every exit of \<open>m\<close>, a \<open>return\<close> included, and
  the outcome of \<open>m\<close> stands unless \<open>fin\<close> raises itself.
\<close>

definition try_finally :: "'a prog \<Rightarrow> unit prog \<Rightarrow> 'a prog" where
  "try_finally m fin =
     (\<lambda>w. case m w of (r, w') \<Rightarrow>
        (case fin w' of (Inl e, w'') \<Rightarrow> (Inl e, w'') | (Inr _, w'') \<Rightarrow> (r, w'')))"

subsection \<open>Column types of the PostgreSQL backend\<close>

text \<open>
  \<open>DATABASE_URL\<close> names a PostgreSQL database, where \<open>Column(String(100))\<close> is
  \<open>VARCHAR(100)\<close> and \<open>Column(Integer)\<close> is a 32-bit \<open>INTEGER\<close>. Storing a longer
  string into \<open>VARCHAR(n)\<close> is an error, unless the excess characters are all spaces, in
  which case the value is cut to \<open>n\<close> characters; storing an integer outside the 32-bit
  range is an error. \<open>Column(Float)\<close> is \<open>DOUBLE PRECISION\<close>, which holds every
  Python float, NaN and the infinities included.
\<close>

definition name_max_length :: nat where
  "name_max_length = 100"

definition varchar :: "nat \<Rightarrow> pystr \<Rightarrow> exn + pystr" where
  "varchar n s =
     (if length s \<le> n then Inr s
      else if list_all (\<lambda>c. c = 32) (drop n s) then Inr (take n s)
      else Inl (SQLAlchemyError (u ''value too long for type character varying'')))"

definition int4 :: "int \<Rightarrow> exn + int" where
  "int4 i =
     (if - 2147483648 \<le> i \<and> i \<le> 2147483647 then Inr i
      else Inl (SQLAlchemyError (u ''integer out of range'')))"

text \<open>
  The flush of one registered change against the table: the INSERT, UPDATE or DELETE
  statement. It yields the new rows, the new sequence value and the primary key of the
  object, or the error of the statement.
\<close>

fun flush :: "change \<Rightarrow> product list \<Rightarrow> int \<Rightarrow> exn + (product list \<times> int \<times> int)" where
  "flush (Insert n p q) rs nid =
     (case varchar name_max_length n of
        Inl e \<Rightarrow> Inl e
      | Inr n' \<Rightarrow>
          (case int4 q of
             Inl e \<Rightarrow> Inl e
           | Inr q' \<Rightarrow>
               Inr (rs @ [\<lparr>pid = nid, name = n', price = p, quantity = q'\<rparr>], nid + 1, nid)))"
| "flush (Modify i n p q) rs nid =
     (case varchar name_max_length n of
        Inl e \<Rightarrow> Inl e
      | Inr n' \<Rightarrow>
          (case int4 q of
             Inl e \<Rightarrow> Inl e
           | Inr q' \<Rightarrow>
               Inr (map (\<lambda>r. if pid r = i then r\<lparr>name := n', price := p, quantity := q'\<rparr> else r) rs,
                    nid, i)))"
| "flush (Remove i) rs nid = Inr (filter (\<lambda>r. pid r \<noteq> i) rs, nid, i)"

subsection \<open>The session calls\<close>

definition logged :: "event \<Rightarrow> world \<Rightarrow> world" where
  "logged e w = w\<lparr>log := log w @ [e]\<rparr>"

text \<open>\<open>SessionLocal()\<close>: a new session; no connection is made yet, so it cannot fail.\<close>

definition SessionLocal :: "unit prog" where
  "SessionLocal =
     (\<lambda>w. (Inr (), logged ESessionLocal
        (w\<lparr>cur := \<lparr>key = None, pending = None\<rparr>, open_sessions := open_sessions w + 1\<rparr>)))"

text \<open>\<open>session.query(Product).filter(Product.id == product_id).first()\<close>\<close>

definition query_first :: "faults \<Rightarrow> int \<Rightarrow> product option prog" where
  "query_first f product_id =
     (\<lambda>w. case f Query of
        Some m \<Rightarrow> (Inl (SQLAlchemyError m), logged EQuery w)
      | None \<Rightarrow>
          (case find (\<lambda>r. pid r = product_id) (rows w) of
             None \<Rightarrow> (Inr None, logged EQuery w)
           | Some r \<Rightarrow> (Inr (Some r), logged EQuery (w\<lparr>cur := (cur w)\<lparr>key := Some (pid r)\<rparr>\<rparr>))))"

text \<open>
  \<open>session.query(Product).all()\<close>: the query has no ORDER BY; the rows come in
  table order.
\<close>

definition query_all :: "faults \<Rightarrow> product list prog" where
  "query_all f =
     (\<lambda>w. case f Query of
        Some m \<Rightarrow> (Inl (SQLAlchemyError m), logged EQuery w)
      | None \<Rightarrow> (Inr (rows w), logged EQuery w))"

text \<open>\<open>session.add(Product(name=name, price=price, quantity=quantity))\<close>\<close>

definition session_add :: "pystr \<Rightarrow> pyfloat \<Rightarrow> int \<Rightarrow> unit prog" where
  "session_add n p q =
     (\<lambda>w. (Inr (), logged EAdd (w\<lparr>cur := (cur w)\<lparr>pending := Some (Insert n p q)\<rparr>\<rparr>)))"

text \<open>
  \<open>product.name = name; product.price = price; product.quantity = quantity\<close> on a
  loaded object: one UPDATE at the next flush.
\<close>

definition set_attrs :: "product \<Rightarrow> pystr \<Rightarrow> pyfloat \<Rightarrow> int \<Rightarrow> unit prog" where
  "set_attrs product n p q =
     (\<lambda>w. (Inr (), logged ESetAttrs (w\<lparr>cur := (cur w)\<lparr>pending := Some (Modify (pid product) n p q)\<rparr>\<rparr>)))"

text \<open>\<open>session.delete(product)\<close>\<close>

definition session_delete :: "product \<Rightarrow> unit prog" where
  "session_delete product =
     (\<lambda>w. (Inr (), logged EDelete (w\<lparr>cur := (cur w)\<lparr>pending := Some (Remove (pid product))\<rparr>\<rparr>)))"

text \<open>
  \<open>session.commit()\<close>: flush the registered change and commit. A failure of either
  leaves the committed rows and the sequence as they were (the model does not follow a
  sequence value that a failed INSERT may have consumed); the change stays registered
  until the session is rolled back.
\<close>

definition session_commit :: "faults \<Rightarrow> unit prog" where
  "session_commit f =
     (\<lambda>w. case f Commit of
        Some m \<Rightarrow> (Inl (SQLAlchemyError m), logged ECommit w)
      | None \<Rightarrow>
          (case pending (cur w) of
             None \<Rightarrow> (Inr (), logged ECommit w)
           | Some c \<Rightarrow>
               (case flush c (rows w) (next_id w) of
                  Inl e \<Rightarrow> (Inl e, logged ECommit w)
                | Inr (rs, nid, k) \<Rightarrow>
                    (Inr (), logged ECommit
                       (w\<lparr>rows := rs, next_id := nid,
                          cur := \<lparr>key = Some k, pending = None\<rparr>\<rparr>)))))"

text \<open>
  \<open>session.refresh(product)\<close>: reload the tracked object by its primary key. An object
  without a key, or whose row is gone, cannot be refreshed (InvalidRequestError, a
  SQLAlchemyError).
\<close>

definition session_refresh :: "faults \<Rightarrow> product prog" where
  "session_refresh f =
     (\<lambda>w. case f Refresh of
        Some m \<Rightarrow> (Inl (SQLAlchemyError m), logged ERefresh w)
      | None \<Rightarrow>
          (case key (cur w) of
             None \<Rightarrow> (Inl (SQLAlchemyError (u ''Instance is not persistent within this Session'')),
                       logged ERefresh w)
           | Some k \<Rightarrow>
               (case find (\<lambda>r. pid r = k) (rows w) of
                  None \<Rightarrow> (Inl (SQLAlchemyError (u ''Could not refresh instance'')), logged ERefresh w)
                | Some r \<Rightarrow> (Inr r, logged ERefresh w))))"

text \<open>\<open>session.rollback()\<close>: the registered change is dropped.\<close>

definition session_rollback :: "unit prog" where
  "session_rollback =
     (\<lambda>w. (Inr (), logged ERollback (w\<lparr>cur := (cur w)\<lparr>pending := None\<rparr>\<rparr>)))"

text \<open>
  \<open>session.close()\<close>: the session is released. Every operation closes only the
  session it opened, so the count is positive here.
\<close>

definition session_close :: "unit prog" where
  "session_close =
     (\<lambda>w. (Inr (), logged EClose (w\<lparr>open_sessions := open_sessions w - 1\<rparr>)))"

section \<open>tp1.py: validation and the database functions\<close>

definition lift :: "exn + 'a \<Rightarrow> 'a prog" where
  "lift r = (\<lambda>w. (r, w))"

text \<open>
  \<open>validate_product\<close> of tp1.py. On a \<open>str\<close>, \<open>not name\<close> is \<open>name == ""\<close>. The
  messages of tp1.py start with the code point U+274C.
\<close>

definition validate_product :: "pystr \<Rightarrow> pyfloat \<Rightarrow> int \<Rightarrow> exn + unit" where
  "validate_product n p q =
     (if n = [] \<or> strip n = [] then Inl (ValueError (10060 # u '' Name cannot be empty''))
      else if float_lt0 p then Inl (ValueError (10060 # u '' Price must be >= 0''))
      else if q < 0 then Inl (ValueError (10060 # u '' Quantity must be >= 0''))
      else Inr ())"

text \<open>
  \<open>except SQLAlchemyError as error: session.rollback(); raise Exception(...)\<close>, and the
  same clause without the rollback (\<open>get_product\<close>, \<open>get_all_products\<close>). Any other
  exception passes through.
\<close>

definition database_error :: "pystr \<Rightarrow> exn" where
  "database_error m = Exception (u ''Database error: '' @ m)"

definition except_rollback :: "exn \<Rightarrow> 'a prog" where
  "except_rollback error =
     (case error of
        SQLAlchemyError m \<Rightarrow> bind session_rollback (\<lambda>_. raise (database_error m))
      | _ \<Rightarrow> raise error)"

definition except_raise :: "exn \<Rightarrow> 'a prog" where
  "except_raise error =
     (case error of
        SQLAlchemyError m \<Rightarrow> raise (database_error m)
      | _ \<Rightarrow> raise error)"

definition create_product :: "faults \<Rightarrow> pystr \<Rightarrow> pyfloat \<Rightarrow> int \<Rightarrow> product prog" where
  "create_product f n p q =
     bind (lift (validate_product n p q)) (\<lambda>_.
     bind SessionLocal (\<lambda>_.
     try_finally
       (try_except
          (bind (session_add n p q) (\<lambda>_.
           bind (session_commit f) (\<lambda>_.
           bind (session_refresh f) (\<lambda>product.
           ret product))))
          except_rollback)
       session_close))"

definition get_product :: "faults \<Rightarrow> int \<Rightarrow> product option prog" where
  "get_product f product_id =
     bind SessionLocal (\<lambda>_.
     try_finally
       (try_except (query_first f product_id) except_raise)
       session_close)"

definition get_all_products :: "faults \<Rightarrow> product list prog" where
  "get_all_products f =
     bind SessionLocal (\<lambda>_.
     try_finally
       (try_except (query_all f) except_raise)
       session_close)"

definition update_product :: "faults \<Rightarrow> int \<Rightarrow> pystr \<Rightarrow> pyfloat \<Rightarrow> int \<Rightarrow> product option prog" where
  "update_product f product_id n p q =
     bind (lift (validate_product n p q)) (\<lambda>_.
     bind SessionLocal (\<lambda>_.
     try_finally
       (try_except
          (bind (query_first f product_id) (\<lambda>found.
           case found of
             None \<Rightarrow> ret None
           | Some product \<Rightarrow>
               bind (set_attrs product n p q) (\<lambda>_.
               bind (session_commit f) (\<lambda>_.
               bind (session_refresh f) (\<lambda>product'.
               ret (Some product'))))))
          except_rollback)
       session_close))"

definition delete_product :: "faults \<Rightarrow> int \<Rightarrow> bool prog" where
  "delete_product f product_id =
     bind SessionLocal (\<lambda>_.
     try_finally
       (try_except
          (bind (query_first f product_id) (\<lambda>found.
           case found of
             None \<Rightarrow> ret False
           | Some product \<Rightarrow>
               bind (session_delete product) (\<lambda>_.
               bind (session_commit f) (\<lambda>_.
               ret True))))
          except_rollback)
       session_close)"

section \<open>Part2/part2.py: the SOAP service\<close>

text \<open>\<open>validate_product\<close> and \<open>validate_id\<close> of part2.py.\<close>

definition soap_validate_product :: "pystr \<Rightarrow> pyfloat \<Rightarrow> int \<Rightarrow> exn + unit" where
  "soap_validate_product n p q =
     (if n = [] \<or> strip n = [] then Inl (ValueError (u ''Name cannot be empty''))
      else if float_lt0 p then Inl (ValueError (u ''Price must be >= 0''))
      else if q < 0 then Inl (ValueError (u ''Quantity must be >= 0''))
      else Inr ())"

definition validate_id :: "int \<Rightarrow> exn + unit" where
  "validate_id i =
     (if i \<le> 0 then Inl (ValueError (u ''Invalid Product ID (must be > 0)'')) else Inr ())"

text \<open>
  \<open>except (ValueError, SQLAlchemyError) as e: return f"Error: {str(e)}"\<close>. The generic
  \<open>Exception\<close> is not named by the clause and passes through.
\<close>

definition except_error_text :: "exn \<Rightarrow> pystr prog" where
  "except_error_text e =
     (case e of
        ValueError m \<Rightarrow> ret (u ''Error: '' @ m)
      | SQLAlchemyError m \<Rightarrow> ret (u ''Error: '' @ m)
      | Exception m \<Rightarrow> raise e)"

text \<open>The statements under \<open>try:\<close> of each method, and the method with its handler.\<close>

definition CreateProduct_body :: "faults \<Rightarrow> pystr \<Rightarrow> pyfloat \<Rightarrow> int \<Rightarrow> pystr prog" where
  "CreateProduct_body f n p q =
     bind (lift (soap_validate_product n p q)) (\<lambda>_.
     bind SessionLocal (\<lambda>_.
     bind (session_add n p q) (\<lambda>_.
     bind (session_commit f) (\<lambda>_.
     bind (session_refresh f) (\<lambda>product.
     bind session_close (\<lambda>_.
     ret (u ''Product created successfully (ID='' @ str_int (pid product) @ u '')'')))))))"

definition CreateProduct :: "faults \<Rightarrow> pystr \<Rightarrow> pyfloat \<Rightarrow> int \<Rightarrow> pystr prog" where
  "CreateProduct f n p q = try_except (CreateProduct_body f n p q) except_error_text"

text \<open>
  \<open>str_float\<close> is Python's formatting of a float inside an f-string, taken as a
  parameter.
\<close>

definition GetProduct_body :: "(pyfloat \<Rightarrow> pystr) \<Rightarrow> faults \<Rightarrow> int \<Rightarrow> pystr prog" where
  "GetProduct_body str_float f product_id =
     bind (lift (validate_id product_id)) (\<lambda>_.
     bind SessionLocal (\<lambda>_.
     bind (query_first f product_id) (\<lambda>found.
     bind session_close (\<lambda>_.
     case found of
       None \<Rightarrow> ret (u ''Product not found'')
     | Some product \<Rightarrow>
         ret (u ''ID='' @ str_int (pid product) @ u '', Name='' @ name product @
              u '', Price='' @ str_float (price product) @
              u '', Quantity='' @ str_int (quantity product))))))"

definition GetProduct :: "(pyfloat \<Rightarrow> pystr) \<Rightarrow> faults \<Rightarrow> int \<Rightarrow> pystr prog" where
  "GetProduct str_float f product_id =
     try_except (GetProduct_body str_float f product_id) except_error_text"

definition UpdateProduct_body :: "faults \<Rightarrow> int \<Rightarrow> pystr \<Rightarrow> pyfloat \<Rightarrow> int \<Rightarrow> pystr prog" where
  "UpdateProduct_body f product_id n p q =
     bind (lift (validate_id product_id)) (\<lambda>_.
     bind (lift (soap_validate_product n p q)) (\<lambda>_.
     bind SessionLocal (\<lambda>_.
     bind (query_first f product_id) (\<lambda>found.
     case found of
       None \<Rightarrow> bind session_close (\<lambda>_. ret (u ''Product not found''))
     | Some product \<Rightarrow>
         bind (set_attrs product n p q) (\<lambda>_.
         bind (session_commit f) (\<lambda>_.
         bind session_close (\<lambda>_.
         ret (u ''Product updated successfully (ID='' @ str_int product_id @ u '')''))))))))"

definition UpdateProduct :: "faults \<Rightarrow> int \<Rightarrow> pystr \<Rightarrow> pyfloat \<Rightarrow> int \<Rightarrow> pystr prog" where
  "UpdateProduct f product_id n p q =
     try_except (UpdateProduct_body f product_id n p q) except_error_text"

definition DeleteProduct_body :: "faults \<Rightarrow> int \<Rightarrow> pystr prog" where
  "DeleteProduct_body f product_id =
     bind (lift (validate_id product_id)) (\<lambda>_.
     bind SessionLocal (\<lambda>_.
     bind (query_first f product_id) (\<lambda>found.
     case found of
       None \<Rightarrow> bind session_close (\<lambda>_. ret (u ''Product not found''))
     | Some product \<Rightarrow>
         bind (session_delete product) (\<lambda>_.
         bind (session_commit f) (\<lambda>_.
         bind session_close (\<lambda>_.
         ret (u ''Product deleted successfully (ID='' @ str_int product_id @ u '')'')))))))"

definition DeleteProduct :: "faults \<Rightarrow> int \<Rightarrow> pystr prog" where
  "DeleteProduct f product_id = try_except (DeleteProduct_body f product_id) except_error_text"

section \<open>Worlds, sequences of calls and the predicates of the properties\<close>

text \<open>
  The world after \<open>create_tables()\<close> on an empty database: no row, the sequence of the
  primary key at its first value, no session.
\<close>

definition initial_world :: world where
  "initial_world =
     \<lparr>rows = [], next_id = 1, cur = \<lparr>key = None, pending = None\<rparr>, open_sessions = 0, log = []\<rparr>"

text \<open>
  The primary key: no two rows share an id, and every id in the table was drawn from the
  sequence.
\<close>

definition well_formed :: "world \<Rightarrow> bool" where
  "well_formed w \<longleftrightarrow> distinct (map pid (rows w)) \<and> list_all (\<lambda>r. pid r < next_id w) (rows w)"

definition names_fit :: "world \<Rightarrow> bool" where
  "names_fit w \<longleftrightarrow> list_all (\<lambda>r. length (name r) \<le> name_max_length) (rows w)"

text \<open>The invariant the specification states for a persisted Product.\<close>

definition product_invariant :: "product \<Rightarrow> bool" where
  "product_invariant r \<longleftrightarrow> strip (name r) \<noteq> [] \<and> float_ge0 (price r) \<and> 0 \<le> quantity r"

text \<open>The calls of tp1.py, what a call gives back, and a sequence of calls.\<close>

datatype op =
  Create pystr pyfloat int | Read int | ListAll | Update int pystr pyfloat int | Delete int

datatype outcome =
  Raised exn | Created product | Found "product option" | Listed "product list"
| Updated "product option" | Deleted bool

definition outcome_of :: "('a \<Rightarrow> outcome) \<Rightarrow> (exn + 'a) \<times> world \<Rightarrow> outcome \<times> world" where
  "outcome_of c rw = (case rw of (Inl e, w) \<Rightarrow> (Raised e, w) | (Inr x, w) \<Rightarrow> (c x, w))"

fun exec :: "faults \<Rightarrow> op \<Rightarrow> world \<Rightarrow> outcome \<times> world" where
  "exec f (Create n p q) w = outcome_of Created (create_product f n p q w)"
| "exec f (Read i) w = outcome_of Found (get_product f i w)"
| "exec f ListAll w = outcome_of Listed (get_all_products f w)"
| "exec f (Update i n p q) w = outcome_of Updated (update_product f i n p q w)"
| "exec f (Delete i) w = outcome_of Deleted (delete_product f i w)"

fun run :: "(faults \<times> op) list \<Rightarrow> world \<Rightarrow> outcome list \<times> world" where
  "run [] w = ([], w)"
| "run ((f, c) # cs) w =
     (case exec f c w of (out, w') \<Rightarrow>
        (case run cs w' of (outs, w'') \<Rightarrow> (out # outs, w'')))"

fun is_created :: "outcome \<Rightarrow> bool" where
  "is_created (Created r) = True"
| "is_created _ = False"

definition created :: "outcome list \<Rightarrow> nat" where
  "created outs = length (filter is_created outs)"

definition deleted :: "outcome list \<Rightarrow> nat" where
  "deleted outs = length (filter (\<lambda>out. out = Deleted True) outs)"

text \<open>
  A call whose store answers the refresh that \<open>create_product\<close> makes after its
  commit; only \<open>create_product\<close> can add a row, so the condition is empty for the
  other calls.
\<close>

fun refresh_answers :: "faults \<times> op \<Rightarrow> bool" where
  "refresh_answers (f, Create n p q) = (f Refresh = None)"
| "refresh_answers (f, c) = True"

text \<open>The methods of the SOAP service, and a sequence of requests.\<close>

datatype soap_op =
  SoapCreate pystr pyfloat int | SoapGet int | SoapUpdate int pystr pyfloat int | SoapDelete int

fun soap_exec :: "(pyfloat \<Rightarrow> pystr) \<Rightarrow> faults \<Rightarrow> soap_op \<Rightarrow> pystr prog" where
  "soap_exec sf f (SoapCreate n p q) = CreateProduct f n p q"
| "soap_exec sf f (SoapGet i) = GetProduct sf f i"
| "soap_exec sf f (SoapUpdate i n p q) = UpdateProduct f i n p q"
| "soap_exec sf f (SoapDelete i) = DeleteProduct f i"

fun soap_run ::
  "(pyfloat \<Rightarrow> pystr) \<Rightarrow> (faults \<times> soap_op) list \<Rightarrow> world \<Rightarrow> (exn + pystr) list \<times> world" where
  "soap_run sf [] w = ([], w)"
| "soap_run sf ((f, c) # cs) w =
     (case soap_exec sf f c w of (out, w') \<Rightarrow>
        (case soap_run sf cs w' of (outs, w'') \<Rightarrow> (out # outs, w'')))"

text \<open>The world after any interleaving of calls of the two front ends.\<close>

fun world_after ::
  "(pyfloat \<Rightarrow> pystr) \<Rightarrow> (faults \<times> (op + soap_op)) list \<Rightarrow> world \<Rightarrow> world" where
  "world_after sf [] w = w"
| "world_after sf ((f, Inl c) # cs) w = world_after sf cs (snd (exec f c w))"
| "world_after sf ((f, Inr c) # cs) w = world_after sf cs (snd (soap_exec sf f c w))"

text \<open>
  A world with one row, and stores that lose the connection at one call, for the
  concrete runs below.
\<close>

definition stocked_world :: world where
  "stocked_world =
     \<lparr>rows = [\<lparr>pid = 1, name = u ''Widget'', price = Finite (999 / 100), quantity = 5\<rparr>],
      next_id = 2, cur = \<lparr>key = None, pending = None\<rparr>, open_sessions = 0, log = []\<rparr>"

definition query_down :: faults where
  "query_down = no_faults(Query := Some (u ''connection lost''))"

definition commit_down :: faults where
  "commit_down = no_faults(Commit := Some (u ''connection lost''))"

definition refresh_down :: faults where
  "refresh_down = no_faults(Refresh := Some (u ''connection lost''))"

text \<open>
  What an operation that failed on the store has done by the time it returns: it called
  \<open>session.rollback()\<close>, closed its session last, left no session open, and left the
  rows as they were unless the failure came after the commit, in the refresh.
\<close>

definition rolled_back :: "world \<Rightarrow> world \<Rightarrow> bool" where
  "rolled_back w w' \<longleftrightarrow>
     (\<exists>evs. log w' = log w @ evs \<and> ERollback \<in> set evs \<and> last evs = EClose \<and>
        (ERefresh \<notin> set evs \<longrightarrow> rows w' = rows w)) \<and>
     open_sessions w' = open_sessions w"

section \<open>Unfolding the operations\<close>

lemmas prog_defs = ret_def raise_def bind_def try_except_def try_finally_def lift_def

lemmas session_defs =
  SessionLocal_def query_first_def query_all_def session_add_def set_attrs_def
  session_delete_def session_commit_def session_refresh_def session_rollback_def
  session_close_def logged_def

lemmas tp1_defs =
  create_product_def get_product_def get_all_products_def update_product_def
  delete_product_def except_rollback_def except_raise_def

lemmas soap_defs =
  CreateProduct_def CreateProduct_body_def GetProduct_def GetProduct_body_def
  UpdateProduct_def UpdateProduct_body_def DeleteProduct_def DeleteProduct_body_def
  except_error_text_def

lemmas op_splits = sum.splits option.splits prod.splits exn.splits if_splits

lemmas run_defs =
  initial_world_def stocked_world_def no_faults_def query_down_def commit_down_def
  refresh_down_def validate_product_def soap_validate_product_def validate_id_def
  strip_def isspace_def u_def database_error_def name_max_length_def varchar_def int4_def

section \<open>What each operation does to the table\<close>

lemma varchar_error: "varchar k s = Inl e \<Longrightarrow> \<exists>m. e = SQLAlchemyError m"
  by (auto simp: varchar_def split: if_splits)

lemma int4_error: "int4 i = Inl e \<Longrightarrow> \<exists>m. e = SQLAlchemyError m"
  by (auto simp: int4_def split: if_splits)

lemma varchar_length: "varchar k s = Inr s' \<Longrightarrow> length s' \<le> k"
  by (auto simp: varchar_def split: if_splits)

lemma find_appended [simp]:
  "find (\<lambda>r. pid r = i) (rs @ [\<lparr>pid = i, name = n, price = p, quantity = q\<rparr>]) \<noteq> None"
  by (auto simp: find_None_iff)

lemma create_product_rows:
  "create_product f n p q w = (r, w') \<Longrightarrow>
     (rows w' = rows w \<and> next_id w' = next_id w \<and> (\<exists>e. r = Inl e)) \<or>
     (\<exists>n' q'. validate_product n p q = Inr () \<and> varchar name_max_length n = Inr n' \<and>
        int4 q = Inr q' \<and> f Commit = None \<and>
        rows w' = rows w @ [\<lparr>pid = next_id w, name = n', price = p, quantity = q'\<rparr>] \<and>
        next_id w' = next_id w + 1)"
  by (auto simp: tp1_defs prog_defs session_defs
      split: sum.splits option.splits prod.splits exn.splits if_splits)

lemma update_product_rows:
  "update_product f i n p q w = (r, w') \<Longrightarrow>
     next_id w' = next_id w \<and>
     (rows w' = rows w \<or>
      (\<exists>n' q'. validate_product n p q = Inr () \<and> varchar name_max_length n = Inr n' \<and>
         int4 q = Inr q' \<and>
         rows w' =
           map (\<lambda>r. if pid r = i then r\<lparr>name := n', price := p, quantity := q'\<rparr> else r) (rows w)))"
  by (auto simp: tp1_defs prog_defs session_defs find_Some_iff
      split: sum.splits option.splits prod.splits exn.splits if_splits)

lemma delete_product_rows:
  "delete_product f i w = (r, w') \<Longrightarrow>
     next_id w' = next_id w \<and>
     ((rows w' = rows w \<and> r \<noteq> Inr True) \<or>
      (rows w' = filter (\<lambda>r. pid r \<noteq> i) (rows w) \<and> r = Inr True \<and>
       find (\<lambda>r. pid r = i) (rows w) \<noteq> None))"
  by (auto simp: tp1_defs prog_defs session_defs find_Some_iff
      split: sum.splits option.splits prod.splits exn.splits if_splits)

lemma get_product_rows:
  "get_product f i w = (r, w') \<Longrightarrow> next_id w' = next_id w \<and> rows w' = rows w"
  by (auto simp: tp1_defs prog_defs session_defs
      split: sum.splits option.splits prod.splits exn.splits if_splits)

lemma get_all_products_rows:
  "get_all_products f w = (r, w') \<Longrightarrow> next_id w' = next_id w \<and> rows w' = rows w"
  by (auto simp: tp1_defs prog_defs session_defs
      split: sum.splits option.splits prod.splits exn.splits if_splits)

lemma CreateProduct_rows:
  "CreateProduct f n p q w = (r, w') \<Longrightarrow>
     (rows w' = rows w \<and> next_id w' = next_id w) \<or>
     (\<exists>n' q'. soap_validate_product n p q = Inr () \<and> varchar name_max_length n = Inr n' \<and>
        int4 q = Inr q' \<and> f Commit = None \<and>
        rows w' = rows w @ [\<lparr>pid = next_id w, name = n', price = p, quantity = q'\<rparr>] \<and>
        next_id w' = next_id w + 1)"
  by (auto simp: soap_defs prog_defs session_defs
      split: sum.splits option.splits prod.splits exn.splits if_splits)

lemma UpdateProduct_rows:
  "UpdateProduct f i n p q w = (r, w') \<Longrightarrow>
     next_id w' = next_id w \<and>
     (rows w' = rows w \<or>
      (\<exists>n' q'. soap_validate_product n p q = Inr () \<and> varchar name_max_length n = Inr n' \<and>
         int4 q = Inr q' \<and>
         rows w' =
           map (\<lambda>r. if pid r = i then r\<lparr>name := n', price := p, quantity := q'\<rparr> else r) (rows w)))"
  by (auto simp: soap_defs prog_defs session_defs find_Some_iff
      split: sum.splits option.splits prod.splits exn.splits if_splits)

lemma DeleteProduct_rows:
  "DeleteProduct f i w = (r, w') \<Longrightarrow>
     next_id w' = next_id w \<and>
     (rows w' = rows w \<or> rows w' = filter (\<lambda>r. pid r \<noteq> i) (rows w))"
  by (auto simp: soap_defs prog_defs session_defs find_Some_iff
      split: sum.splits option.splits prod.splits exn.splits if_splits)

lemma GetProduct_rows:
  "GetProduct sf f i w = (r, w') \<Longrightarrow> next_id w' = next_id w \<and> rows w' = rows w"
  by (auto simp: soap_defs prog_defs session_defs
      split: sum.splits option.splits prod.splits exn.splits if_splits)

lemma find_updated:
  "find (\<lambda>r. pid r = i)
     (map (\<lambda>r. if pid r = i then r\<lparr>name := n, price := p, quantity := q\<rparr> else r) rs) =
   map_option (\<lambda>r. r\<lparr>name := n, price := p, quantity := q\<rparr>) (find (\<lambda>r. pid r = i) rs)"
  by (induction rs) auto

lemma find_pid: "find (\<lambda>r. pid r = i) rs = Some r \<Longrightarrow> pid r = i"
  by (auto simp: find_Some_iff)

lemma validate_product_error: "validate_product n p q = Inl e \<Longrightarrow> \<exists>m. e = ValueError m"
  by (auto simp: validate_product_def split: if_splits)

lemma soap_validate_product_error:
  "soap_validate_product n p q = Inl e \<Longrightarrow> \<exists>m. e = ValueError m"
  by (auto simp: soap_validate_product_def split: if_splits)

lemma validate_id_error: "validate_id i = Inl e \<Longrightarrow> \<exists>m. e = ValueError m"
  by (auto simp: validate_id_def split: if_splits)

text \<open>The database functions of tp1.py close the session they open, on every path.\<close>

lemma tp1_sessions_released:
  "open_sessions (snd (create_product f n p q w)) = open_sessions w"
  "open_sessions (snd (get_product f i w)) = open_sessions w"
  "open_sessions (snd (get_all_products f w)) = open_sessions w"
  "open_sessions (snd (update_product f i n p q w)) = open_sessions w"
  "open_sessions (snd (delete_product f i w)) = open_sessions w"
  by (auto simp: tp1_defs prog_defs session_defs
      split: sum.splits option.splits prod.splits exn.splits if_splits)

section \<open>Invariants of the rows\<close>

lemma validate_product_ok:
  "validate_product n p q = Inr () \<longleftrightarrow> n \<noteq> [] \<and> strip n \<noteq> [] \<and> \<not> float_lt0 p \<and> 0 \<le> q"
  by (auto simp: validate_product_def)

lemma soap_validate_product_ok:
  "soap_validate_product n p q = Inr () \<longleftrightarrow> n \<noteq> [] \<and> strip n \<noteq> [] \<and> \<not> float_lt0 p \<and> 0 \<le> q"
  by (auto simp: soap_validate_product_def)

lemma updated_row:
  "r\<lparr>name := n, price := p, quantity := q\<rparr> = \<lparr>pid = pid r, name = n, price = p, quantity = q\<rparr>"
  by simp

lemma list_all_updated:
  assumes "list_all Q rs" and "\<And>j. Q \<lparr>pid = j, name = n, price = p, quantity = q\<rparr>"
  shows "list_all Q
    (map (\<lambda>r. if pid r = i then r\<lparr>name := n, price := p, quantity := q\<rparr> else r) rs)"
proof -
  have "Q (r\<lparr>name := n, price := p, quantity := q\<rparr>)" for r
    using assms(2) [of "pid r"] by (simp add: updated_row)
  with assms(1) show ?thesis by (induction rs) auto
qed

lemma list_all_filtered: "list_all Q rs \<Longrightarrow> list_all Q (filter P rs)"
  by (induction rs) auto

lemma exec_preserves_rows:
  assumes new: "\<And>i n n' p q q'. strip n \<noteq> [] \<Longrightarrow> \<not> float_lt0 p \<Longrightarrow> 0 \<le> q \<Longrightarrow>
      varchar name_max_length n = Inr n' \<Longrightarrow> int4 q = Inr q' \<Longrightarrow>
      Q \<lparr>pid = i, name = n', price = p, quantity = q'\<rparr>"
    and inv: "list_all Q (rows w)"
  shows "list_all Q (rows (snd (exec f c w)))"
proof (cases c)
  case (Create n p q)
  obtain r w' where eq: "create_product f n p q w = (r, w')"
    by (cases "create_product f n p q w")
  from create_product_rows [OF eq] have "list_all Q (rows w')"
    using inv new by (auto simp: validate_product_ok)
  with Create eq show ?thesis by (simp add: outcome_of_def split: sum.splits)
next
  case (Read i)
  obtain r w' where eq: "get_product f i w = (r, w')" by (cases "get_product f i w")
  from get_product_rows [OF eq] inv Read eq show ?thesis
    by (simp add: outcome_of_def split: sum.splits)
next
  case ListAll
  obtain r w' where eq: "get_all_products f w = (r, w')" by (cases "get_all_products f w")
  from get_all_products_rows [OF eq] inv ListAll eq show ?thesis
    by (simp add: outcome_of_def split: sum.splits)
next
  case (Update i n p q)
  obtain r w' where eq: "update_product f i n p q w = (r, w')"
    by (cases "update_product f i n p q w")
  from update_product_rows [OF eq] have "list_all Q (rows w')"
    using inv new by (auto simp: validate_product_ok intro!: list_all_updated)
  with Update eq show ?thesis by (simp add: outcome_of_def split: sum.splits)
next
  case (Delete i)
  obtain r w' where eq: "delete_product f i w = (r, w')" by (cases "delete_product f i w")
  from delete_product_rows [OF eq] have "list_all Q (rows w')"
    using inv by (auto intro: list_all_filtered)
  with Delete eq show ?thesis by (simp add: outcome_of_def split: sum.splits)
qed

lemma soap_exec_preserves_rows:
  assumes new: "\<And>i n n' p q q'. strip n \<noteq> [] \<Longrightarrow> \<not> float_lt0 p \<Longrightarrow> 0 \<le> q \<Longrightarrow>
      varchar name_max_length n = Inr n' \<Longrightarrow> int4 q = Inr q' \<Longrightarrow>
      Q \<lparr>pid = i, name = n', price = p, quantity = q'\<rparr>"
    and inv: "list_all Q (rows w)"
  shows "list_all Q (rows (snd (soap_exec sf f c w)))"
proof (cases c)
  case (SoapCreate n p q)
  obtain r w' where eq: "CreateProduct f n p q w = (r, w')" by (cases "CreateProduct f n p q w")
  from CreateProduct_rows [OF eq] have "list_all Q (rows w')"
    using inv new by (auto simp: soap_validate_product_ok)
  with SoapCreate eq show ?thesis by simp
next
  case (SoapGet i)
  obtain r w' where eq: "GetProduct sf f i w = (r, w')" by (cases "GetProduct sf f i w")
  from GetProduct_rows [OF eq] inv SoapGet eq show ?thesis by simp
next
  case (SoapUpdate i n p q)
  obtain r w' where eq: "UpdateProduct f i n p q w = (r, w')"
    by (cases "UpdateProduct f i n p q w")
  from UpdateProduct_rows [OF eq] have "list_all Q (rows w')"
    using inv new by (auto simp: soap_validate_product_ok intro!: list_all_updated)
  with SoapUpdate eq show ?thesis by simp
next
  case (SoapDelete i)
  obtain r w' where eq: "DeleteProduct f i w = (r, w')" by (cases "DeleteProduct f i w")
  from DeleteProduct_rows [OF eq] have "list_all Q (rows w')"
    using inv by (auto intro: list_all_filtered)
  with SoapDelete eq show ?thesis by simp
qed

lemma world_after_preserves_rows:
  assumes new: "\<And>i n n' p q q'. strip n \<noteq> [] \<Longrightarrow> \<not> float_lt0 p \<Longrightarrow> 0 \<le> q \<Longrightarrow>
      varchar name_max_length n = Inr n' \<Longrightarrow> int4 q = Inr q' \<Longrightarrow>
      Q \<lparr>pid = i, name = n', price = p, quantity = q'\<rparr>"
  shows "list_all Q (rows w) \<Longrightarrow> list_all Q (rows (world_after sf cs w))"
proof (induction cs arbitrary: w)
  case Nil
  then show ?case by simp
next
  case (Cons fc cs)
  obtain f c where fc: "fc = (f, c)" by (cases fc)
  show ?case
  proof (cases c)
    case (Inl a)
    have "list_all Q (rows (snd (exec f a w)))"
      using new Cons.prems by (rule exec_preserves_rows)
    then show ?thesis using Cons.IH fc Inl by simp
  next
    case (Inr b)
    have "list_all Q (rows (snd (soap_exec sf f b w)))"
      using new Cons.prems by (rule soap_exec_preserves_rows)
    then show ?thesis using Cons.IH fc Inr by simp
  qed
qed

lemma strip_empty: "strip s = [] \<longleftrightarrow> list_all isspace s"
proof -
  define d where "d = dropWhile isspace s"
  have a: "strip s = [] \<longleftrightarrow> (\<forall>x\<in>set d. isspace x)"
    unfolding strip_def d_def [symmetric] by (simp add: dropWhile_eq_Nil_conv)
  have b: "(\<forall>x\<in>set d. isspace x) \<longleftrightarrow> d = []"
  proof
    assume all: "\<forall>x\<in>set d. isspace x"
    show "d = []"
    proof (rule ccontr)
      assume ne: "d \<noteq> []"
      then have "\<not> isspace (hd d)" unfolding d_def by (rule hd_dropWhile)
      moreover from ne have "hd d \<in> set d" by (rule hd_in_set)
      ultimately show False using all by blast
    qed
  next
    assume "d = []"
    then show "\<forall>x\<in>set d. isspace x" by simp
  qed
  have c: "d = [] \<longleftrightarrow> (\<forall>x\<in>set s. isspace x)"
    unfolding d_def by (rule dropWhile_eq_Nil_conv)
  from a b c show ?thesis by (simp only: list_all_iff)
qed

lemma varchar_strip:
  assumes "strip n \<noteq> []" and "varchar k n = Inr n'"
  shows "strip n' \<noteq> []"
proof (cases "length n \<le> k")
  case True
  with assms show ?thesis by (simp add: varchar_def)
next
  case False
  with assms(2) have sp: "list_all (\<lambda>c. c = 32) (drop k n)" and n': "n' = take k n"
    by (auto simp: varchar_def split: if_splits)
  from sp have "list_all isspace (drop k n)"
    by (auto simp: list_all_iff isspace_def)
  moreover from assms(1) have "\<not> list_all isspace (take k n @ drop k n)"
    by (simp add: strip_empty)
  ultimately have "\<not> list_all isspace (take k n)"
    by (simp only: list_all_append) simp
  with n' show ?thesis by (simp add: strip_empty)
qed

lemma float_not_lt0: "\<not> float_lt0 p \<Longrightarrow> p = NaN \<or> float_ge0 p"
  by (cases p) auto

lemma int4_value: "int4 q = Inr q' \<Longrightarrow> q' = q"
  by (auto simp: int4_def split: if_splits)

text \<open>
  What the operations do keep: the name of every row is non-empty after trimming, its
  quantity is at least 0, and its price is at least 0 or NaN.
\<close>

lemma stored_rows_valid_or_nan:
  assumes "list_all (\<lambda>r. strip (name r) \<noteq> [] \<and> (price r = NaN \<or> float_ge0 (price r)) \<and> 0 \<le> quantity r)
     (rows w)"
  shows "list_all (\<lambda>r. strip (name r) \<noteq> [] \<and> (price r = NaN \<or> float_ge0 (price r)) \<and> 0 \<le> quantity r)
     (rows (world_after sf cs w))"
  using assms
  by (rule world_after_preserves_rows [rotated])
     (auto dest: varchar_strip float_not_lt0 int4_value)

lemma find_fresh:
  "list_all (\<lambda>r. pid r < k) rs \<Longrightarrow> pid x = k \<Longrightarrow>
   find (\<lambda>r. pid r = k) (rs @ [x]) = Some x"
  by (induction rs) auto

lemma varchar_short: "length s \<le> k \<Longrightarrow> varchar k s = Inr s"
  by (simp add: varchar_def)

section \<open>The primary key\<close>

lemma pids_updated:
  "map pid (map (\<lambda>r. if pid r = i then r\<lparr>name := n, price := p, quantity := q\<rparr> else r) rs) =
   map pid rs"
  by (induction rs) auto

lemma well_formed_appended:
  assumes "well_formed w" and "rows w' = rows w @ [x]" and "pid x = next_id w"
    and "next_id w' = next_id w + 1"
  shows "well_formed w'"
proof -
  from assms(1) have d: "distinct (map pid (rows w))"
    and b: "list_all (\<lambda>r. pid r < next_id w) (rows w)"
    by (simp_all add: well_formed_def)
  from b have "next_id w \<notin> pid ` set (rows w)" by (auto simp: list_all_iff)
  moreover from b have "list_all (\<lambda>r. pid r < next_id w + 1) (rows w)"
    by (auto simp: list_all_iff)
  ultimately show ?thesis using d assms(2-4) by (simp add: well_formed_def)
qed

lemma list_all_pids: "list_all (\<lambda>r. pid r < k) rs = list_all (\<lambda>j. j < k) (map pid rs)"
  by (induction rs) auto

lemma well_formed_same:
  "well_formed w \<Longrightarrow> map pid (rows w') = map pid (rows w) \<Longrightarrow> next_id w' = next_id w \<Longrightarrow>
   well_formed w'"
  by (simp add: well_formed_def list_all_pids)

lemma well_formed_filtered:
  "well_formed w \<Longrightarrow> rows w' = filter P (rows w) \<Longrightarrow> next_id w' = next_id w \<Longrightarrow>
   well_formed w'"
  by (auto simp: well_formed_def list_all_iff distinct_map_filter)

lemma exec_well_formed:
  assumes "well_formed w"
  shows "well_formed (snd (exec f c w))"
proof (cases c)
  case (Create n p q)
  obtain r w' where eq: "create_product f n p q w = (r, w')"
    by (cases "create_product f n p q w")
  from create_product_rows [OF eq] assms have "well_formed w'"
    by (auto intro: well_formed_same well_formed_appended)
  with Create eq show ?thesis by (simp add: outcome_of_def split: sum.splits)
next
  case (Read i)
  obtain r w' where eq: "get_product f i w = (r, w')" by (cases "get_product f i w")
  from get_product_rows [OF eq] assms have "well_formed w'"
    by (auto intro: well_formed_same)
  with Read eq show ?thesis by (simp add: outcome_of_def split: sum.splits)
next
  case ListAll
  obtain r w' where eq: "get_all_products f w = (r, w')" by (cases "get_all_products f w")
  from get_all_products_rows [OF eq] assms have "well_formed w'"
    by (auto intro: well_formed_same)
  with ListAll eq show ?thesis by (simp add: outcome_of_def split: sum.splits)
next
  case (Update i n p q)
  obtain r w' where eq: "update_product f i n p q w = (r, w')"
    by (cases "update_product f i n p q w")
  from update_product_rows [OF eq] assms have "well_formed w'"
    by (auto intro: well_formed_same simp: pids_updated)
  with Update eq show ?thesis by (simp add: outcome_of_def split: sum.splits)
next
  case (Delete i)
  obtain r w' where eq: "delete_product f i w = (r, w')" by (cases "delete_product f i w")
  from delete_product_rows [OF eq] assms have "well_formed w'"
    by (auto intro: well_formed_same well_formed_filtered)
  with Delete eq show ?thesis by (simp add: outcome_of_def split: sum.splits)
qed

lemma soap_exec_well_formed:
  assumes "well_formed w"
  shows "well_formed (snd (soap_exec sf f c w))"
proof (cases c)
  case (SoapCreate n p q)
  obtain r w' where eq: "CreateProduct f n p q w = (r, w')" by (cases "CreateProduct f n p q w")
  from CreateProduct_rows [OF eq] assms have "well_formed w'"
    by (auto intro: well_formed_same well_formed_appended)
  with SoapCreate eq show ?thesis by simp
next
  case (SoapGet i)
  obtain r w' where eq: "GetProduct sf f i w = (r, w')" by (cases "GetProduct sf f i w")
  from GetProduct_rows [OF eq] assms have "well_formed w'"
    by (auto intro: well_formed_same)
  with SoapGet eq show ?thesis by simp
next
  case (SoapUpdate i n p q)
  obtain r w' where eq: "UpdateProduct f i n p q w = (r, w')"
    by (cases "UpdateProduct f i n p q w")
  from UpdateProduct_rows [OF eq] assms have "well_formed w'"
    by (auto intro: well_formed_same simp: pids_updated)
  with SoapUpdate eq show ?thesis by simp
next
  case (SoapDelete i)
  obtain r w' where eq: "DeleteProduct f i w = (r, w')" by (cases "DeleteProduct f i w")
  from DeleteProduct_rows [OF eq] assms have "well_formed w'"
    by (auto intro: well_formed_same well_formed_filtered)
  with SoapDelete eq show ?thesis by simp
qed

text \<open>
  Every world the two front ends can reach from the initial one is well-formed: the
  primary key stays unique and below the sequence.
\<close>

lemma world_after_well_formed:
  "well_formed w \<Longrightarrow> well_formed (world_after sf cs w)"
proof (induction cs arbitrary: w)
  case Nil
  then show ?case by simp
next
  case (Cons fc cs)
  obtain f c where fc: "fc = (f, c)" by (cases fc)
  show ?case
  proof (cases c)
    case (Inl a)
    with Cons fc exec_well_formed [of w f a] show ?thesis by simp
  next
    case (Inr b)
    with Cons fc soap_exec_well_formed [of w sf f b] show ?thesis by simp
  qed
qed

lemma initial_world_well_formed: "well_formed initial_world"
  by (simp add: well_formed_def initial_world_def)

section \<open>Identifier validation (C1)\<close>

text \<open>
  C1, as stated: for an id \<open>\<le> 0\<close> the Read, Update and Delete operations fail with
  a ValueError before any store access. At id 0 on the initial world no operation of
  either front end fails with a ValueError. \<open>get_product\<close>, \<open>update_product\<close> and
  \<open>delete_product\<close> of tp1.py open a session, issue the query, close the session and
  return the not-found result. GetProduct of the SOAP service catches the ValueError of
  \<open>validate_id\<close> and returns a text.
\<close>

theorem invalid_id_without_value_error:
  "get_product no_faults 0 initial_world =
     (Inr None, initial_world\<lparr>log := [ESessionLocal, EQuery, EClose]\<rparr>) \<and>
   update_product no_faults 0 (u ''Widget'') (Finite (999 / 100)) 5 initial_world =
     (Inr None, initial_world\<lparr>log := [ESessionLocal, EQuery, EClose]\<rparr>) \<and>
   delete_product no_faults 0 initial_world =
     (Inr False, initial_world\<lparr>log := [ESessionLocal, EQuery, EClose]\<rparr>) \<and>
   fst (GetProduct (\<lambda>x. []) no_faults 0 initial_world) =
     Inr (u ''Error: Invalid Product ID (must be > 0)'')"
  by (simp add: tp1_defs soap_defs prog_defs session_defs run_defs)

text \<open>
  C1, amended: for every id \<open>\<le> 0\<close>, \<open>validate_id\<close> of part2.py raises ValueError, and
  the SOAP methods GetProduct, UpdateProduct and DeleteProduct answer with the text
  \<open>Error: Invalid Product ID (must be > 0)\<close> before any store access: the world is
  returned as it was, so no session was created and no query was issued. This holds for
  every outcome of the store and, for UpdateProduct, for every name, price and quantity.
\<close>

theorem soap_invalid_id_rejected:
  assumes "i \<le> 0"
  shows "validate_id i = Inl (ValueError (u ''Invalid Product ID (must be > 0)'')) \<and>
         GetProduct sf f i w = (Inr (u ''Error: '' @ u ''Invalid Product ID (must be > 0)''), w) \<and>
         UpdateProduct f i n p q w = (Inr (u ''Error: '' @ u ''Invalid Product ID (must be > 0)''), w) \<and>
         DeleteProduct f i w = (Inr (u ''Error: '' @ u ''Invalid Product ID (must be > 0)''), w)"
  using assms by (simp add: validate_id_def soap_defs prog_defs)

theorem soap_invalid_id_rejected_witness:
  "validate_id 0 = Inl (ValueError (u ''Invalid Product ID (must be > 0)'')) \<and>
   GetProduct (\<lambda>x. []) no_faults 0 initial_world =
     (Inr (u ''Error: Invalid Product ID (must be > 0)''), initial_world) \<and>
   UpdateProduct no_faults 0 (u ''Widget'') (Finite 5) 3 initial_world =
     (Inr (u ''Error: Invalid Product ID (must be > 0)''), initial_world) \<and>
   DeleteProduct no_faults 0 initial_world =
     (Inr (u ''Error: Invalid Product ID (must be > 0)''), initial_world)"
  using soap_invalid_id_rejected [of 0 "\<lambda>x. []" no_faults initial_world "u ''Widget''" "Finite 5" 3]
  by (simp add: u_def)

section \<open>Release of the session (C2)\<close>

text \<open>
  C2 at a failing input: CreateProduct of the SOAP service, called on the initial world
  with a store that loses the connection at the commit. The method returns its error
  text with the session still open: nothing closed it, and nothing rolled it back (the
  INSERT is still registered in it).
\<close>

theorem soap_create_leaks_session:
  "CreateProduct commit_down (u ''Widget'') (Finite (999 / 100)) 5 initial_world =
     (Inr (u ''Error: connection lost''),
      \<lparr>rows = [], next_id = 1,
       cur = \<lparr>key = None, pending = Some (Insert (u ''Widget'') (Finite (999 / 100)) 5)\<rparr>,
       open_sessions = 1, log = [ESessionLocal, EAdd, ECommit]\<rparr>)"
  by (simp add: soap_defs prog_defs session_defs run_defs)

section \<open>Store errors (C3)\<close>

text \<open>
  C3, as stated: a store error in Create, Update or Delete rolls the transaction back,
  leaves the rows as they were and fails with a StoreError. Two runs on the initial
  world refute it. CreateProduct of the SOAP service, with the connection lost at the
  commit, returns a text and never calls \<open>session.rollback()\<close>. \<open>create_product\<close> of
  tp1.py, with the connection lost at the refresh that follows the commit, raises its
  database error although the row has been stored.
\<close>

theorem store_error_without_rollback:
  "fst (CreateProduct commit_down (u ''Widget'') (Finite (999 / 100)) 5 initial_world) =
     Inr (u ''Error: connection lost'') \<and>
   ERollback \<notin> set (log (snd (CreateProduct commit_down (u ''Widget'') (Finite (999 / 100)) 5
     initial_world))) \<and>
   fst (create_product refresh_down (u ''Widget'') (Finite (999 / 100)) 5 initial_world) =
     Inl (Exception (u ''Database error: connection lost'')) \<and>
   rows (snd (create_product refresh_down (u ''Widget'') (Finite (999 / 100)) 5 initial_world)) =
     [\<lparr>pid = 1, name = u ''Widget'', price = Finite (999 / 100), quantity = 5\<rparr>] \<and>
   rows initial_world = []"
  by (simp add: soap_defs tp1_defs prog_defs session_defs run_defs)

text \<open>
  C3, amended. In \<open>create_product\<close>, \<open>update_product\<close> and \<open>delete_product\<close> of
  tp1.py an error of the store never goes unreported: a call that returns normally made
  no store call that failed, and a call that fails raises either the ValueError of the
  validation, with the world untouched, or the generic \<open>Exception\<close>. Whenever the
  generic \<open>Exception\<close> is raised, the operation has called \<open>session.rollback()\<close> and
  closed its session, the message is \<open>Database error: \<close> followed by the message of the
  store's error (a failed query, commit or refresh, or a value the columns reject), and
  the rows are what they were before the call when the store failed before the refresh,
  that is at the query or at the commit. CreateProduct of the SOAP service does not
  raise on an error of the store: it returns the text \<open>Error: \<close> followed by the
  store's message, and the rows are what they were before the call when the store
  failed before the refresh.
\<close>

theorem store_error_rolls_back:
  "(create_product f n p q w = (Inl (Exception msg), w') \<longrightarrow>
      rolled_back w w' \<and>
      (\<exists>m. msg = u ''Database error: '' @ m \<and>
         (f Commit = Some m \<or> f Refresh = Some m \<or>
          varchar name_max_length n = Inl (SQLAlchemyError m) \<or> int4 q = Inl (SQLAlchemyError m)))) \<and>
   (create_product f n p q w = (Inr r, w') \<longrightarrow> f Commit = None \<and> f Refresh = None) \<and>
   (create_product f n p q w = (Inl e, w') \<longrightarrow>
      (\<exists>m. e = Exception m) \<or> (\<exists>m. e = ValueError m) \<and> w' = w) \<and>
   (update_product f i n p q w = (Inl (Exception msg), w') \<longrightarrow>
      rolled_back w w' \<and>
      (\<exists>m. msg = u ''Database error: '' @ m \<and>
         (f Query = Some m \<or> f Commit = Some m \<or> f Refresh = Some m \<or>
          varchar name_max_length n = Inl (SQLAlchemyError m) \<or> int4 q = Inl (SQLAlchemyError m)))) \<and>
   (update_product f i n p q w = (Inr found, w') \<longrightarrow>
      f Query = None \<and> (found = None \<or> f Commit = None \<and> f Refresh = None)) \<and>
   (update_product f i n p q w = (Inl e, w') \<longrightarrow>
      (\<exists>m. e = Exception m) \<or> (\<exists>m. e = ValueError m) \<and> w' = w) \<and>
   (delete_product f i w = (Inl (Exception msg), w') \<longrightarrow>
      rolled_back w w' \<and>
      (\<exists>m. msg = u ''Database error: '' @ m \<and> (f Query = Some m \<or> f Commit = Some m))) \<and>
   (delete_product f i w = (Inr gone, w') \<longrightarrow>
      f Query = None \<and> (gone = False \<or> f Commit = None)) \<and>
   (delete_product f i w = (Inl e, w') \<longrightarrow> (\<exists>m. e = Exception m)) \<and>
   (CreateProduct_body f n p q w = (Inl (SQLAlchemyError m), w') \<longrightarrow>
      CreateProduct f n p q w = (Inr (u ''Error: '' @ m), w') \<and>
      (\<exists>evs. log w' = log w @ evs \<and> (ERefresh \<notin> set evs \<longrightarrow> rows w' = rows w)))"
proof -
  have c1: "rolled_back w w'" if "create_product f n p q w = (Inl (Exception msg), w')"
    using that
    by (auto simp: rolled_back_def tp1_defs prog_defs session_defs database_error_def
        split: op_splits dest: varchar_error int4_error validate_product_error)
  have c2: "\<exists>m. msg = u ''Database error: '' @ m \<and>
         (f Commit = Some m \<or> f Refresh = Some m \<or>
          varchar name_max_length n = Inl (SQLAlchemyError m) \<or> int4 q = Inl (SQLAlchemyError m))"
    if "create_product f n p q w = (Inl (Exception msg), w')"
    using that
    by (auto simp: tp1_defs prog_defs session_defs database_error_def
        split: op_splits dest: varchar_error int4_error validate_product_error)
  have c3: "f Commit = None \<and> f Refresh = None" if "create_product f n p q w = (Inr r, w')"
    using that
    by (auto simp: tp1_defs prog_defs session_defs split: op_splits)
  have c4: "(\<exists>m. e = Exception m) \<or> (\<exists>m. e = ValueError m) \<and> w' = w"
    if "create_product f n p q w = (Inl e, w')"
    using that
    by (auto simp: tp1_defs prog_defs session_defs database_error_def
        split: op_splits dest: varchar_error int4_error validate_product_error)
  have u1: "rolled_back w w'" if "update_product f i n p q w = (Inl (Exception msg), w')"
    using that
    by (auto simp: rolled_back_def tp1_defs prog_defs session_defs database_error_def
        split: op_splits dest: varchar_error int4_error validate_product_error)
  have u2: "\<exists>m. msg = u ''Database error: '' @ m \<and>
         (f Query = Some m \<or> f Commit = Some m \<or> f Refresh = Some m \<or>
          varchar name_max_length n = Inl (SQLAlchemyError m) \<or> int4 q = Inl (SQLAlchemyError m))"
    if a: "update_product f i n p q w = (Inl (Exception msg), w')"
  proof (cases "find (\<lambda>r. pid r = i) (rows w)")
    case None
    with a show ?thesis
      by (auto simp: tp1_defs prog_defs session_defs database_error_def
          split: op_splits dest: validate_product_error)
  next
    case (Some r)
    then have "pid r = i" by (rule find_pid)
    with a Some show ?thesis
      by (auto simp: tp1_defs prog_defs session_defs database_error_def find_updated
          split: op_splits dest: varchar_error int4_error validate_product_error)
  qed
  have u3: "f Query = None \<and> (found = None \<or> f Commit = None \<and> f Refresh = None)"
    if "update_product f i n p q w = (Inr found, w')"
    using that
    by (auto simp: tp1_defs prog_defs session_defs split: op_splits)
  have u4: "(\<exists>m. e = Exception m) \<or> (\<exists>m. e = ValueError m) \<and> w' = w"
    if "update_product f i n p q w = (Inl e, w')"
    using that
    by (auto simp: tp1_defs prog_defs session_defs database_error_def
        split: op_splits dest: varchar_error int4_error validate_product_error)
  have d1: "rolled_back w w'" if "delete_product f i w = (Inl (Exception msg), w')"
    using that
    by (auto simp: rolled_back_def tp1_defs prog_defs session_defs database_error_def
        split: op_splits)
  have d2: "\<exists>m. msg = u ''Database error: '' @ m \<and> (f Query = Some m \<or> f Commit = Some m)"
    if "delete_product f i w = (Inl (Exception msg), w')"
    using that
    by (auto simp: tp1_defs prog_defs session_defs database_error_def split: op_splits)
  have d3: "f Query = None \<and> (gone = False \<or> f Commit = None)"
    if "delete_product f i w = (Inr gone, w')"
    using that
    by (auto simp: tp1_defs prog_defs session_defs split: op_splits)
  have d4: "\<exists>m. e = Exception m" if "delete_product f i w = (Inl e, w')"
    using that
    by (auto simp: tp1_defs prog_defs session_defs database_error_def split: op_splits)
  have s1: "CreateProduct f n p q w = (Inr (u ''Error: '' @ m), w')"
    if "CreateProduct_body f n p q w = (Inl (SQLAlchemyError m), w')"
    using that by (simp add: CreateProduct_def try_except_def except_error_text_def ret_def)
  have s2: "\<exists>evs. log w' = log w @ evs \<and> (ERefresh \<notin> set evs \<longrightarrow> rows w' = rows w)"
    if "CreateProduct_body f n p q w = (Inl (SQLAlchemyError m), w')"
    using that
    by (auto simp: soap_defs prog_defs session_defs
        split: op_splits dest: soap_validate_product_error)
  show ?thesis
  proof (intro conjI)
    show "create_product f n p q w = (Inl (Exception msg), w') \<longrightarrow>
      rolled_back w w' \<and>
      (\<exists>m. msg = u ''Database error: '' @ m \<and>
         (f Commit = Some m \<or> f Refresh = Some m \<or>
          varchar name_max_length n = Inl (SQLAlchemyError m) \<or> int4 q = Inl (SQLAlchemyError m)))"
      using c1 c2 by (intro impI conjI)
    show "create_product f n p q w = (Inr r, w') \<longrightarrow> f Commit = None \<and> f Refresh = None"
      using c3 by (rule impI)
    show "create_product f n p q w = (Inl e, w') \<longrightarrow>
      (\<exists>m. e = Exception m) \<or> (\<exists>m. e = ValueError m) \<and> w' = w"
      using c4 by (rule impI)
    show "update_product f i n p q w = (Inl (Exception msg), w') \<longrightarrow>
      rolled_back w w' \<and>
      (\<exists>m. msg = u ''Database error: '' @ m \<and>
         (f Query = Some m \<or> f Commit = Some m \<or> f Refresh = Some m \<or>
          varchar name_max_length n = Inl (SQLAlchemyError m) \<or> int4 q = Inl (SQLAlchemyError m)))"
      using u1 u2 by (intro impI conjI)
    show "update_product f i n p q w = (Inr found, w') \<longrightarrow>
      f Query = None \<and> (found = None \<or> f Commit = None \<and> f Refresh = None)"
      using u3 by (rule impI)
    show "update_product f i n p q w = (Inl e, w') \<longrightarrow>
      (\<exists>m. e = Exception m) \<or> (\<exists>m. e = ValueError m) \<and> w' = w"
      using u4 by (rule impI)
    show "delete_product f i w = (Inl (Exception msg), w') \<longrightarrow>
      rolled_back w w' \<and>
      (\<exists>m. msg = u ''Database error: '' @ m \<and> (f Query = Some m \<or> f Commit = Some m))"
      using d1 d2 by (intro impI conjI)
    show "delete_product f i w = (Inr gone, w') \<longrightarrow>
      f Query = None \<and> (gone = False \<or> f Commit = None)"
      using d3 by (rule impI)
    show "delete_product f i w = (Inl e, w') \<longrightarrow> (\<exists>m. e = Exception m)"
      using d4 by (rule impI)
    show "CreateProduct_body f n p q w = (Inl (SQLAlchemyError m), w') \<longrightarrow>
      CreateProduct f n p q w = (Inr (u ''Error: '' @ m), w') \<and>
      (\<exists>evs. log w' = log w @ evs \<and> (ERefresh \<notin> set evs \<longrightarrow> rows w' = rows w))"
      using s1 s2 by (intro impI conjI)
  qed
qed

theorem store_error_rolls_back_witness:
  "create_product commit_down (u ''Widget'') (Finite (999 / 100)) 5 initial_world =
     (Inl (Exception (u ''Database error: connection lost'')),
      initial_world\<lparr>cur := \<lparr>key = None, pending = None\<rparr>,
                     log := [ESessionLocal, EAdd, ECommit, ERollback, EClose]\<rparr>) \<and>
   rolled_back initial_world
     (initial_world\<lparr>cur := \<lparr>key = None, pending = None\<rparr>,
                     log := [ESessionLocal, EAdd, ECommit, ERollback, EClose]\<rparr>) \<and>
   rolled_back stocked_world
     (snd (update_product query_down 1 (u ''Widget'') (Finite (25 / 2)) 3 stocked_world)) \<and>
   rolled_back stocked_world (snd (delete_product commit_down 1 stocked_world)) \<and>
   CreateProduct commit_down (u ''Widget'') (Finite (999 / 100)) 5 initial_world =
     (Inr (u ''Error: connection lost''),
      snd (CreateProduct_body commit_down (u ''Widget'') (Finite (999 / 100)) 5 initial_world))"
  using
    store_error_rolls_back [where f = commit_down and n = "u ''Widget''"
      and p = "Finite (999 / 100)" and q = 5 and w = initial_world
      and msg = "u ''Database error: connection lost''" and m = "u ''connection lost''"
      and w' = "initial_world\<lparr>cur := \<lparr>key = None, pending = None\<rparr>,
                     log := [ESessionLocal, EAdd, ECommit, ERollback, EClose]\<rparr>"]
    store_error_rolls_back [where f = query_down and i = 1 and n = "u ''Widget''"
      and p = "Finite (25 / 2)" and q = 3 and w = stocked_world
      and msg = "u ''Database error: connection lost''"
      and w' = "snd (update_product query_down 1 (u ''Widget'') (Finite (25 / 2)) 3 stocked_world)"]
    store_error_rolls_back [where f = commit_down and i = 1 and w = stocked_world
      and msg = "u ''Database error: connection lost''"
      and w' = "snd (delete_product commit_down 1 stocked_world)"]
    store_error_rolls_back [where f = commit_down and n = "u ''Widget''"
      and p = "Finite (999 / 100)" and q = 5 and w = initial_world
      and m = "u ''connection lost''"
      and w' = "snd (CreateProduct_body commit_down (u ''Widget'') (Finite (999 / 100)) 5 initial_world)"]
  by (simp add: soap_defs tp1_defs prog_defs session_defs run_defs)

section \<open>Length of the stored name (C4)\<close>

text \<open>
  C4: no sequence of calls stores a name longer than 100 characters. The bound is not
  checked by \<open>validate_product\<close>; it is the column type \<open>String(100)\<close> of the model,
  applied by the store when a commit flushes the INSERT or UPDATE. Whatever the calls
  (of tp1.py and of the SOAP service, in any order, with any outcome of the store),
  every row of the table keeps a name of at most 100 characters.
\<close>

theorem stored_names_fit:
  "names_fit initial_world \<and>
   (names_fit w \<longrightarrow>
      names_fit (world_after sf cs w) \<and>
      list_all (\<lambda>r. length (name r) \<le> 100) (rows (world_after sf cs w)))"
proof -
  have "list_all (\<lambda>r. length (name r) \<le> name_max_length) (rows (world_after sf cs w))"
    if "names_fit w"
    using that unfolding names_fit_def
    by (rule world_after_preserves_rows [rotated]) (simp add: varchar_length)
  then show ?thesis
    by (auto simp: names_fit_def initial_world_def name_max_length_def)
qed

theorem stored_names_fit_witness:
  "names_fit initial_world \<and>
   names_fit (world_after (\<lambda>x. [])
     [(no_faults, Inl (Create (u ''Widget'') (Finite (999 / 100)) 5)),
      (no_faults, Inr (SoapUpdate 1 (u ''Gadget'') (Finite 1) 1))] initial_world) \<and>
   list_all (\<lambda>r. length (name r) \<le> 100) (rows (world_after (\<lambda>x. [])
     [(no_faults, Inl (Create (u ''Widget'') (Finite (999 / 100)) 5)),
      (no_faults, Inr (SoapUpdate 1 (u ''Gadget'') (Finite 1) 1))] initial_world))"
  using stored_names_fit [of initial_world "\<lambda>x. []"
      "[(no_faults, Inl (Create (u ''Widget'') (Finite (999 / 100)) 5)),
        (no_faults, Inr (SoapUpdate 1 (u ''Gadget'') (Finite 1) 1))]"]
  by simp


section \<open>The invariant of a stored Product (C5)\<close>

text \<open>
  C5 at a failing input: \<open>create_product("Widget", float("nan"), 5)\<close> on the initial
  world, with a store that works. \<open>validate_product\<close> tests \<open>price < 0\<close>, which is false
  on NaN, so the call passes the validation and stores a row whose price is not
  \<open>\<ge> 0\<close>: the invariant holds before the call and not after it.
\<close>

theorem nan_price_is_stored:
  "validate_product (u ''Widget'') NaN 5 = Inr () \<and>
   list_all product_invariant (rows initial_world) \<and>
   rows (snd (create_product no_faults (u ''Widget'') NaN 5 initial_world)) =
     [\<lparr>pid = 1, name = u ''Widget'', price = NaN, quantity = 5\<rparr>] \<and>
   \<not> list_all product_invariant
     (rows (snd (create_product no_faults (u ''Widget'') NaN 5 initial_world)))"
  by (simp add: tp1_defs prog_defs session_defs run_defs product_invariant_def)

section \<open>The frame of Update (C6)\<close>

text \<open>
  C6: Update with valid inputs, on a store that raises no error. If no row has the id,
  the operation returns the not-found result (\<open>None\<close> in tp1.py, the text
  \<open>Product not found\<close> in the SOAP service) and the rows and the sequence are as they
  were. If a row has the id, the name, price and quantity of that row are replaced by
  the values as the columns store them (the values given, for a name of at most 100
  characters), and every row keeps its id and its place; a row with another id is
  unchanged. Valid inputs are those that pass \<open>validate_product\<close>, and for the SOAP
  service \<open>validate_id\<close> as well.
\<close>

theorem update_frame:
  assumes "f Query = None"
  shows
   "(validate_product n p q = Inr () \<longrightarrow>
      (find (\<lambda>r. pid r = i) (rows w) = None \<longrightarrow>
         (\<exists>w'. update_product f i n p q w = (Inr None, w') \<and>
               rows w' = rows w \<and> next_id w' = next_id w)) \<and>
      (find (\<lambda>r. pid r = i) (rows w) = Some r \<and> f Commit = None \<and> f Refresh = None \<and>
       varchar name_max_length n = Inr n' \<and> int4 q = Inr q' \<longrightarrow>
         (\<exists>w'. update_product f i n p q w =
                 (Inr (Some (r\<lparr>name := n', price := p, quantity := q'\<rparr>)), w') \<and>
               rows w' =
                 map (\<lambda>x. if pid x = i then x\<lparr>name := n', price := p, quantity := q'\<rparr> else x)
                   (rows w) \<and>
               map pid (rows w') = map pid (rows w) \<and> next_id w' = next_id w) \<and>
         q' = q \<and> (length n \<le> name_max_length \<longrightarrow> n' = n))) \<and>
    (validate_id i = Inr () \<and> soap_validate_product n p q = Inr () \<longrightarrow>
      (find (\<lambda>r. pid r = i) (rows w) = None \<longrightarrow>
         (\<exists>w'. UpdateProduct f i n p q w = (Inr (u ''Product not found''), w') \<and>
               rows w' = rows w \<and> next_id w' = next_id w)) \<and>
      (find (\<lambda>r. pid r = i) (rows w) = Some r \<and> f Commit = None \<and>
       varchar name_max_length n = Inr n' \<and> int4 q = Inr q' \<longrightarrow>
         (\<exists>w'. UpdateProduct f i n p q w =
                 (Inr (u ''Product updated successfully (ID='' @ str_int i @ u '')''), w') \<and>
               rows w' =
                 map (\<lambda>x. if pid x = i then x\<lparr>name := n', price := p, quantity := q'\<rparr> else x)
                   (rows w) \<and>
               map pid (rows w') = map pid (rows w) \<and> next_id w' = next_id w)))"
proof -
  have ids: "map pid (map (\<lambda>x. if pid x = i then x\<lparr>name := n', price := p, quantity := q'\<rparr> else x) rs)
      = map pid rs" for rs
    by (induction rs) auto
  have found: "pid r = i" if "find (\<lambda>r. pid r = i) (rows w) = Some r"
    using that by (rule find_pid)
  have t1: "\<exists>w'. update_product f i n p q w = (Inr None, w') \<and>
               rows w' = rows w \<and> next_id w' = next_id w"
    if "validate_product n p q = Inr ()" "find (\<lambda>r. pid r = i) (rows w) = None"
    using that assms by (simp add: tp1_defs prog_defs session_defs)
  have t2: "\<exists>w'. update_product f i n p q w =
                 (Inr (Some (r\<lparr>name := n', price := p, quantity := q'\<rparr>)), w') \<and>
               rows w' =
                 map (\<lambda>x. if pid x = i then x\<lparr>name := n', price := p, quantity := q'\<rparr> else x)
                   (rows w) \<and>
               map pid (rows w') = map pid (rows w) \<and> next_id w' = next_id w"
    if "validate_product n p q = Inr ()" "find (\<lambda>r. pid r = i) (rows w) = Some r"
      "f Commit = None" "f Refresh = None" "varchar name_max_length n = Inr n'" "int4 q = Inr q'"
    using that assms found [OF that(2)]
    by (simp add: tp1_defs prog_defs session_defs find_updated ids)
  have s1: "\<exists>w'. UpdateProduct f i n p q w = (Inr (u ''Product not found''), w') \<and>
               rows w' = rows w \<and> next_id w' = next_id w"
    if "validate_id i = Inr ()" "soap_validate_product n p q = Inr ()"
      "find (\<lambda>r. pid r = i) (rows w) = None"
    using that assms by (simp add: soap_defs prog_defs session_defs)
  have s2: "\<exists>w'. UpdateProduct f i n p q w =
                 (Inr (u ''Product updated successfully (ID='' @ str_int i @ u '')''), w') \<and>
               rows w' =
                 map (\<lambda>x. if pid x = i then x\<lparr>name := n', price := p, quantity := q'\<rparr> else x)
                   (rows w) \<and>
               map pid (rows w') = map pid (rows w) \<and> next_id w' = next_id w"
    if "validate_id i = Inr ()" "soap_validate_product n p q = Inr ()"
      "find (\<lambda>r. pid r = i) (rows w) = Some r"
      "f Commit = None" "varchar name_max_length n = Inr n'" "int4 q = Inr q'"
    using that assms found [OF that(3)]
    by (simp add: soap_defs prog_defs session_defs ids)
  have v: "q' = q \<and> (length n \<le> name_max_length \<longrightarrow> n' = n)"
    if "varchar name_max_length n = Inr n'" "int4 q = Inr q'"
    using that by (auto simp: varchar_def dest: int4_value)
  from t1 t2 s1 s2 v show ?thesis by blast
qed

theorem update_frame_witness:
  "(\<exists>w'. update_product no_faults 2 (u ''Gadget'') (Finite (25 / 2)) 3 stocked_world = (Inr None, w') \<and>
         rows w' = rows stocked_world \<and> next_id w' = next_id stocked_world) \<and>
   (\<exists>w'. update_product no_faults 1 (u ''Gadget'') (Finite (25 / 2)) 3 stocked_world =
           (Inr (Some \<lparr>pid = 1, name = u ''Gadget'', price = Finite (25 / 2), quantity = 3\<rparr>), w') \<and>
         rows w' = [\<lparr>pid = 1, name = u ''Gadget'', price = Finite (25 / 2), quantity = 3\<rparr>]) \<and>
   (\<exists>w'. UpdateProduct no_faults 2 (u ''Gadget'') (Finite (25 / 2)) 3 stocked_world =
           (Inr (u ''Product not found''), w') \<and>
         rows w' = rows stocked_world) \<and>
   (\<exists>w'. UpdateProduct no_faults 1 (u ''Gadget'') (Finite (25 / 2)) 3 stocked_world =
           (Inr (u ''Product updated successfully (ID=1)''), w') \<and>
         rows w' = [\<lparr>pid = 1, name = u ''Gadget'', price = Finite (25 / 2), quantity = 3\<rparr>])"
proof -
  have q: "no_faults Query = None" by (simp add: no_faults_def)
  have d: "str_int 1 = [49]" by (simp add: str_int_def)
  show ?thesis
    using
      update_frame [where f = no_faults and i = 2 and n = "u ''Gadget''" and p = "Finite (25 / 2)" and q = 3
        and w = stocked_world]
      update_frame [where f = no_faults and i = 1 and n = "u ''Gadget''" and p = "Finite (25 / 2)" and q = 3
        and w = stocked_world and n' = "u ''Gadget''" and q' = 3
        and r = "\<lparr>pid = 1, name = u ''Widget'', price = Finite (999 / 100), quantity = 5\<rparr>"]
    using q by (simp add: run_defs d) blast
qed

section \<open>Create, then Read (C7)\<close>

text \<open>
  C7: on a well-formed table, whenever \<open>create_product\<close> returns a record, an
  immediate \<open>get_product\<close> of its id (with a store that answers the query) returns
  that very record: the id is the one the sequence assigned, the price and the quantity
  are the ones given, and the name is the one given as the column stores it. For valid
  inputs that fit the columns and a store that raises no error, \<open>create_product\<close> does
  return such a record, with the name as given.
\<close>

theorem create_then_read:
  assumes "well_formed w"
  shows
   "(create_product f n p q w = (Inr made, w') \<and> g Query = None \<longrightarrow>
       (\<exists>w''. get_product g (pid made) w' = (Inr (Some made), w'')) \<and>
       pid made = next_id w \<and> price made = p \<and> quantity made = q \<and>
       varchar name_max_length n = Inr (name made) \<and>
       validate_product n p q = Inr ()) \<and>
    (validate_product n p q = Inr () \<and> length n \<le> name_max_length \<and> q \<le> 2147483647 \<and>
     f Commit = None \<and> f Refresh = None \<longrightarrow>
       (\<exists>w'. create_product f n p q w =
          (Inr \<lparr>pid = next_id w, name = n, price = p, quantity = q\<rparr>, w')))"
proof (intro conjI impI)
  assume a: "create_product f n p q w = (Inr made, w') \<and> g Query = None"
  from assms have fresh: "list_all (\<lambda>r. pid r < next_id w) (rows w)"
    by (simp add: well_formed_def)
  from a have c: "create_product f n p q w = (Inr made, w')" and g: "g Query = None"
    by simp_all
  from c fresh have
    "rows w' = rows w @ [made] \<and> pid made = next_id w \<and> price made = p \<and>
     quantity made = q \<and> varchar name_max_length n = Inr (name made) \<and>
     validate_product n p q = Inr ()"
    by (auto simp: tp1_defs prog_defs session_defs find_fresh int4_def
        split: sum.splits option.splits prod.splits exn.splits if_splits)
  then have r: "rows w' = rows w @ [made]" and rest: "pid made = next_id w"
      "price made = p" "quantity made = q" "varchar name_max_length n = Inr (name made)"
      "validate_product n p q = Inr ()"
    by simp_all
  from rest show "pid made = next_id w" "price made = p" "quantity made = q"
    "varchar name_max_length n = Inr (name made)" "validate_product n p q = Inr ()"
    by simp_all
  have "find (\<lambda>r. pid r = pid made) (rows w') = Some made"
    using find_fresh [OF fresh, of made] r rest(1) by simp
  with g show "\<exists>w''. get_product g (pid made) w' = (Inr (Some made), w'')"
    by (simp add: tp1_defs prog_defs session_defs)
next
  assume a: "validate_product n p q = Inr () \<and> length n \<le> name_max_length \<and> q \<le> 2147483647 \<and>
     f Commit = None \<and> f Refresh = None"
  from assms have fresh: "list_all (\<lambda>r. pid r < next_id w) (rows w)"
    by (simp add: well_formed_def)
  from a have "0 \<le> q" by (simp add: validate_product_ok)
  with a have "int4 q = Inr q" by (simp add: int4_def)
  with a fresh show "\<exists>w'. create_product f n p q w =
          (Inr \<lparr>pid = next_id w, name = n, price = p, quantity = q\<rparr>, w')"
    by (simp add: tp1_defs prog_defs session_defs find_fresh varchar_short)
qed

theorem create_then_read_witness:
  "well_formed initial_world \<and>
   (\<exists>w' w''.
      create_product no_faults (u ''Widget'') (Finite (999 / 100)) 5 initial_world =
        (Inr \<lparr>pid = 1, name = u ''Widget'', price = Finite (999 / 100), quantity = 5\<rparr>, w') \<and>
      get_product no_faults 1 w' =
        (Inr (Some \<lparr>pid = 1, name = u ''Widget'', price = Finite (999 / 100), quantity = 5\<rparr>), w''))"
proof -
  have wf: "well_formed initial_world"
    by (simp add: well_formed_def initial_world_def)
  have nf: "no_faults Query = None" "no_faults Commit = None" "no_faults Refresh = None"
    by (simp_all add: no_faults_def)
  have v: "validate_product (u ''Widget'') (Finite (999 / 100)) 5 = Inr ()"
    "length (u ''Widget'') \<le> name_max_length"
    by (simp_all add: run_defs)
  have "\<exists>w'. create_product no_faults (u ''Widget'') (Finite (999 / 100)) 5 initial_world =
        (Inr \<lparr>pid = next_id initial_world, name = u ''Widget'', price = Finite (999 / 100),
          quantity = 5\<rparr>, w')"
    using create_then_read [OF wf, where f = no_faults and n = "u ''Widget''"
      and p = "Finite (999 / 100)" and q = 5, THEN conjunct2] v nf
    by simp
  then obtain w' where
    c: "create_product no_faults (u ''Widget'') (Finite (999 / 100)) 5 initial_world =
        (Inr \<lparr>pid = 1, name = u ''Widget'', price = Finite (999 / 100), quantity = 5\<rparr>, w')"
    by (auto simp: initial_world_def)
  have "\<exists>w''. get_product no_faults
      (pid \<lparr>pid = 1, name = u ''Widget'', price = Finite (999 / 100), quantity = 5\<rparr>) w' =
        (Inr (Some \<lparr>pid = 1, name = u ''Widget'', price = Finite (999 / 100), quantity = 5\<rparr>), w'')"
    using create_then_read [OF wf, where f = no_faults and g = no_faults and n = "u ''Widget''"
      and p = "Finite (999 / 100)" and q = 5 and w' = w'
      and made = "\<lparr>pid = 1, name = u ''Widget'', price = Finite (999 / 100), quantity = 5\<rparr>",
      THEN conjunct1] c nf
    by simp
  then obtain w'' where "get_product no_faults 1 w' =
        (Inr (Some \<lparr>pid = 1, name = u ''Widget'', price = Finite (999 / 100), quantity = 5\<rparr>), w'')"
    by auto
  with wf c show ?thesis by blast
qed

section \<open>Delete of an absent id (C8)\<close>

lemma delete_product_absent:
  "find (\<lambda>r. pid r = i) (rows w) = None \<Longrightarrow> f Query = None \<Longrightarrow>
   delete_product f i w =
     (Inr False, w\<lparr>cur := \<lparr>key = None, pending = None\<rparr>,
                   log := log w @ [ESessionLocal, EQuery, EClose]\<rparr>)"
  by (simp add: tp1_defs prog_defs session_defs)

lemma DeleteProduct_absent:
  "find (\<lambda>r. pid r = i) (rows w) = None \<Longrightarrow> f Query = None \<Longrightarrow> 0 < i \<Longrightarrow>
   DeleteProduct f i w =
     (Inr (u ''Product not found''),
      w\<lparr>cur := \<lparr>key = None, pending = None\<rparr>, log := log w @ [ESessionLocal, EQuery, EClose]\<rparr>)"
  by (simp add: soap_defs prog_defs session_defs validate_id_def)

lemma run_delete_absent:
  "find (\<lambda>r. pid r = i) (rows w) = None \<Longrightarrow> list_all (\<lambda>f. f Query = None) fs \<Longrightarrow>
   \<exists>w'. run (map (\<lambda>f. (f, Delete i)) fs) w = (replicate (length fs) (Deleted False), w') \<and>
        rows w' = rows w \<and> next_id w' = next_id w \<and> open_sessions w' = open_sessions w"
proof (induction fs arbitrary: w)
  case Nil
  then show ?case by simp
next
  case (Cons f fs)
  let ?w1 = "w\<lparr>cur := \<lparr>key = None, pending = None\<rparr>, log := log w @ [ESessionLocal, EQuery, EClose]\<rparr>"
  from Cons.prems have step: "delete_product f i w = (Inr False, ?w1)"
    by (simp add: delete_product_absent)
  from Cons.prems have "find (\<lambda>r. pid r = i) (rows ?w1) = None" "list_all (\<lambda>f. f Query = None) fs"
    by simp_all
  from Cons.IH [OF this] obtain w' where
    "run (map (\<lambda>f. (f, Delete i)) fs) ?w1 = (replicate (length fs) (Deleted False), w')"
    "rows w' = rows ?w1" "next_id w' = next_id ?w1" "open_sessions w' = open_sessions ?w1"
    by blast
  with step show ?case by (simp add: outcome_of_def)
qed

lemma soap_run_delete_absent:
  "find (\<lambda>r. pid r = i) (rows w) = None \<Longrightarrow> list_all (\<lambda>f. f Query = None) fs \<Longrightarrow> 0 < i \<Longrightarrow>
   \<exists>w'. soap_run sf (map (\<lambda>f. (f, SoapDelete i)) fs) w =
          (replicate (length fs) (Inr (u ''Product not found'')), w') \<and>
        rows w' = rows w \<and> next_id w' = next_id w \<and> open_sessions w' = open_sessions w"
proof (induction fs arbitrary: w)
  case Nil
  then show ?case by simp
next
  case (Cons f fs)
  let ?w1 = "w\<lparr>cur := \<lparr>key = None, pending = None\<rparr>, log := log w @ [ESessionLocal, EQuery, EClose]\<rparr>"
  from Cons.prems have step: "DeleteProduct f i w = (Inr (u ''Product not found''), ?w1)"
    by (simp add: DeleteProduct_absent)
  from Cons.prems have "find (\<lambda>r. pid r = i) (rows ?w1) = None" "list_all (\<lambda>f. f Query = None) fs"
    "0 < i"
    by simp_all
  from Cons.IH [OF this] obtain w' where
    "soap_run sf (map (\<lambda>f. (f, SoapDelete i)) fs) ?w1 =
       (replicate (length fs) (Inr (u ''Product not found'')), w')"
    "rows w' = rows ?w1" "next_id w' = next_id ?w1" "open_sessions w' = open_sessions ?w1"
    by blast
  with step show ?case by simp
qed

text \<open>
  C8: Delete of an id that no row has, on a store that answers the query. However many
  times the call is repeated, every call returns the not-found result and never an
  error (\<open>False\<close> from \<open>delete_product\<close> of tp1.py, for every id; the text
  \<open>Product not found\<close> from DeleteProduct of the SOAP service, for every id that passes
  \<open>validate_id\<close>), and the rows, the sequence and the number of open sessions are as
  before.
\<close>

theorem delete_absent_idempotent:
  assumes "find (\<lambda>r. pid r = i) (rows w) = None" and "list_all (\<lambda>f. f Query = None) fs"
  shows
   "(\<exists>w'. run (map (\<lambda>f. (f, Delete i)) fs) w = (replicate (length fs) (Deleted False), w') \<and>
          rows w' = rows w \<and> next_id w' = next_id w \<and> open_sessions w' = open_sessions w) \<and>
    (0 < i \<longrightarrow>
      (\<exists>w'. soap_run sf (map (\<lambda>f. (f, SoapDelete i)) fs) w =
              (replicate (length fs) (Inr (u ''Product not found'')), w') \<and>
            rows w' = rows w \<and> next_id w' = next_id w \<and> open_sessions w' = open_sessions w))"
  using run_delete_absent [OF assms] soap_run_delete_absent [OF assms] by blast

theorem delete_absent_idempotent_witness:
  "(\<exists>w'. run [(no_faults, Delete 7), (no_faults, Delete 7), (no_faults, Delete 7)] stocked_world =
          ([Deleted False, Deleted False, Deleted False], w') \<and>
        rows w' = rows stocked_world) \<and>
   (\<exists>w'. soap_run (\<lambda>x. []) [(no_faults, SoapDelete 7), (no_faults, SoapDelete 7)] stocked_world =
          ([Inr (u ''Product not found''), Inr (u ''Product not found'')], w') \<and>
        rows w' = rows stocked_world)"
  using delete_absent_idempotent [of 7 stocked_world "[no_faults, no_faults, no_faults]" "\<lambda>x. []"]
    delete_absent_idempotent [of 7 stocked_world "[no_faults, no_faults]" "\<lambda>x. []"]
  by (simp add: stocked_world_def no_faults_def numeral_3_eq_3) blast

section \<open>The number of listed records (C9)\<close>

lemma filter_absent:
  "i \<notin> pid ` set rs \<Longrightarrow> filter (\<lambda>r. pid r \<noteq> i) rs = rs"
  by (induction rs) auto

lemma length_filter_distinct:
  "distinct (map pid rs) \<Longrightarrow> find (\<lambda>r. pid r = i) rs \<noteq> None \<Longrightarrow>
   Suc (length (filter (\<lambda>r. pid r \<noteq> i) rs)) = length rs"
proof (induction rs)
  case Nil
  then show ?case by simp
next
  case (Cons r rs)
  show ?case
  proof (cases "pid r = i")
    case True
    with Cons.prems have "i \<notin> pid ` set rs" by auto
    with True show ?thesis by (simp add: filter_absent)
  next
    case False
    with Cons show ?thesis by simp
  qed
qed

lemma create_product_counts:
  "create_product f n p q w = (r, w') \<Longrightarrow> f Refresh = None \<Longrightarrow>
     (rows w' = rows w \<and> (\<exists>e. r = Inl e)) \<or>
     (\<exists>x y. rows w' = rows w @ [x] \<and> r = Inr y)"
  by (auto simp: tp1_defs prog_defs session_defs split: op_splits)

lemma exec_count:
  assumes "well_formed w" and "exec f c w = (out, w')" and "refresh_answers (f, c)"
  shows "int (length (rows w')) =
     int (length (rows w)) + (if is_created out then 1 else 0) - (if out = Deleted True then 1 else 0)"
proof (cases c)
  case (Create n p q)
  obtain r w1 where eq: "create_product f n p q w = (r, w1)"
    by (cases "create_product f n p q w")
  from assms(3) Create have "f Refresh = None" by simp
  from create_product_counts [OF eq this] eq Create assms(2) show ?thesis
    by (auto simp: outcome_of_def split: sum.splits)
next
  case (Read i)
  obtain r w1 where eq: "get_product f i w = (r, w1)" by (cases "get_product f i w")
  from get_product_rows [OF eq] eq Read assms(2) show ?thesis
    by (auto simp: outcome_of_def split: sum.splits)
next
  case ListAll
  obtain r w1 where eq: "get_all_products f w = (r, w1)" by (cases "get_all_products f w")
  from get_all_products_rows [OF eq] eq ListAll assms(2) show ?thesis
    by (auto simp: outcome_of_def split: sum.splits)
next
  case (Update i n p q)
  obtain r w1 where eq: "update_product f i n p q w = (r, w1)"
    by (cases "update_product f i n p q w")
  from update_product_rows [OF eq] eq Update assms(2) show ?thesis
    by (auto simp: outcome_of_def split: sum.splits)
next
  case (Delete i)
  obtain r w1 where eq: "delete_product f i w = (r, w1)" by (cases "delete_product f i w")
  from assms(1) have d: "distinct (map pid (rows w))" by (simp add: well_formed_def)
  from delete_product_rows [OF eq] eq Delete assms(2) length_filter_distinct [OF d, of i]
  show ?thesis
    by (auto simp: outcome_of_def split: sum.splits)
qed

lemma run_count:
  "well_formed w \<Longrightarrow> run cs w = (outs, w') \<Longrightarrow> list_all refresh_answers cs \<Longrightarrow>
   int (length (rows w')) = int (length (rows w)) + int (created outs) - int (deleted outs)"
proof (induction cs arbitrary: w outs w')
  case Nil
  then show ?case by (simp add: created_def deleted_def)
next
  case (Cons fc cs)
  obtain f c where fc: "fc = (f, c)" by (cases fc)
  obtain out w1 where step: "exec f c w = (out, w1)" by (cases "exec f c w")
  obtain outs1 w2 where rest: "run cs w1 = (outs1, w2)" by (cases "run cs w1")
  from Cons.prems(2) fc step rest have o: "outs = out # outs1" and w: "w' = w2" by simp_all
  from Cons.prems(3) fc have ra: "refresh_answers (f, c)" "list_all refresh_answers cs" by simp_all
  from exec_well_formed [OF Cons.prems(1), of f c] step have wf1: "well_formed w1" by simp
  from Cons.IH [OF wf1 rest ra(2)] exec_count [OF Cons.prems(1) step ra(1)] o w
  show ?case by (simp add: created_def deleted_def)
qed

text \<open>
  What the operations do keep. List on a table without rows returns the empty sequence.
  From any well-formed table, after any sequence of tp1.py calls, failed ones included,
  in which the store answered the refresh of every \<open>create_product\<close>, List returns
  exactly the rows of the table, and their number is the number listed initially plus
  the number of creates that returned a record minus the number of deletes that returned
  true.
\<close>

lemma list_counts_when_refresh_answers:
  assumes "f Query = None" and "g Query = None"
  shows
   "(rows w = [] \<longrightarrow> (\<exists>w1. get_all_products f w = (Inr [], w1))) \<and>
    (well_formed w \<and> run cs w = (outs, w') \<and> list_all refresh_answers cs \<longrightarrow>
       (\<exists>w1 w2. get_all_products f w = (Inr (rows w), w1) \<and>
                get_all_products g w' = (Inr (rows w'), w2)) \<and>
       int (length (rows w')) = int (length (rows w)) + int (created outs) - int (deleted outs) \<and>
       (deleted outs \<le> created outs \<longrightarrow>
          length (rows w') = length (rows w) + (created outs - deleted outs)))"
proof -
  have l: "\<exists>w1. get_all_products h v = (Inr (rows v), w1)" if "h Query = None" for h v
    using that by (simp add: tp1_defs prog_defs session_defs)
  have c: "int (length (rows w')) = int (length (rows w)) + int (created outs) - int (deleted outs)"
    if "well_formed w" "run cs w = (outs, w')" "list_all refresh_answers cs"
    using that by (rule run_count)
  from l [of f w] l [of g w'] assms c show ?thesis
    by (auto simp del: of_nat_add)
qed

text \<open>
  C9 at a failing input: on the initial world, where List returns the empty sequence,
  one \<open>create_product("Widget", 9.99, 5)\<close> with the connection lost at the
  \<open>session.refresh\<close> that follows the commit. The call raises its database error, so
  the history holds no successful Create and no successful Delete; yet the row was
  committed before the refresh, the rollback of the handler undoes nothing, and List
  returns one record more than initially, not N - M = 0 more.
\<close>

theorem failed_create_is_listed:
  "get_all_products no_faults initial_world =
     (Inr [], initial_world\<lparr>log := [ESessionLocal, EQuery, EClose]\<rparr>) \<and>
   fst (run [(refresh_down, Create (u ''Widget'') (Finite (999 / 100)) 5)] initial_world) =
     [Raised (Exception (u ''Database error: connection lost''))] \<and>
   created [Raised (Exception (u ''Database error: connection lost''))] = 0 \<and>
   deleted [Raised (Exception (u ''Database error: connection lost''))] = 0 \<and>
   fst (get_all_products no_faults
     (snd (run [(refresh_down, Create (u ''Widget'') (Finite (999 / 100)) 5)] initial_world))) =
     Inr [\<lparr>pid = 1, name = u ''Widget'', price = Finite (999 / 100), quantity = 5\<rparr>]"
  by (simp add: tp1_defs prog_defs session_defs run_defs outcome_of_def created_def deleted_def)

section \<open>The SOAP methods always answer with a text (C10)\<close>

lemma except_error_text_total:
  assumes "\<And>e w'. body w = (Inl e, w') \<Longrightarrow> (\<exists>m. e = ValueError m) \<or> (\<exists>m. e = SQLAlchemyError m)"
    and "\<And>s w'. body w = (Inr s, w') \<Longrightarrow> \<not> prefix (u ''Error: '') s"
  shows "\<exists>s w'. try_except body except_error_text w = (Inr s, w') \<and>
           (prefix (u ''Error: '') s \<longleftrightarrow> (\<exists>e. fst (body w) = Inl e))"
proof (cases "body w")
  case (Pair r w')
  show ?thesis
  proof (cases r)
    case (Inl e)
    with Pair assms(1) [of e w'] show ?thesis
      by (auto simp: try_except_def except_error_text_def ret_def)
  next
    case (Inr s)
    with Pair assms(2) [of s w'] show ?thesis
      by (auto simp: try_except_def)
  qed
qed

lemma CreateProduct_body_raises:
  "CreateProduct_body f n p q w = (Inl e, w') \<Longrightarrow>
     (\<exists>m. e = ValueError m) \<or> (\<exists>m. e = SQLAlchemyError m)"
  by (auto simp: CreateProduct_body_def prog_defs session_defs
      split: sum.splits option.splits prod.splits if_splits
      dest: soap_validate_product_error varchar_error int4_error)

lemma GetProduct_body_raises:
  "GetProduct_body sf f i w = (Inl e, w') \<Longrightarrow>
     (\<exists>m. e = ValueError m) \<or> (\<exists>m. e = SQLAlchemyError m)"
  by (auto simp: GetProduct_body_def prog_defs session_defs
      split: sum.splits option.splits prod.splits if_splits
      dest: validate_id_error)

lemma UpdateProduct_body_raises:
  "UpdateProduct_body f i n p q w = (Inl e, w') \<Longrightarrow>
     (\<exists>m. e = ValueError m) \<or> (\<exists>m. e = SQLAlchemyError m)"
  by (auto simp: UpdateProduct_body_def prog_defs session_defs
      split: sum.splits option.splits prod.splits if_splits
      dest: validate_id_error soap_validate_product_error varchar_error int4_error)

lemma DeleteProduct_body_raises:
  "DeleteProduct_body f i w = (Inl e, w') \<Longrightarrow>
     (\<exists>m. e = ValueError m) \<or> (\<exists>m. e = SQLAlchemyError m)"
  by (auto simp: DeleteProduct_body_def prog_defs session_defs
      split: sum.splits option.splits prod.splits if_splits
      dest: validate_id_error)

lemma CreateProduct_body_text:
  "CreateProduct_body f n p q w = (Inr s, w') \<Longrightarrow> \<not> prefix (u ''Error: '') s"
  by (auto simp: CreateProduct_body_def prog_defs session_defs u_def
      split: sum.splits option.splits prod.splits if_splits)

lemma GetProduct_body_text:
  "GetProduct_body sf f i w = (Inr s, w') \<Longrightarrow> \<not> prefix (u ''Error: '') s"
  by (auto simp: GetProduct_body_def prog_defs session_defs u_def
      split: sum.splits option.splits prod.splits if_splits)

lemma UpdateProduct_body_text:
  "UpdateProduct_body f i n p q w = (Inr s, w') \<Longrightarrow> \<not> prefix (u ''Error: '') s"
  by (auto simp: UpdateProduct_body_def prog_defs session_defs u_def
      split: sum.splits option.splits prod.splits if_splits)

lemma DeleteProduct_body_text:
  "DeleteProduct_body f i w = (Inr s, w') \<Longrightarrow> \<not> prefix (u ''Error: '') s"
  by (auto simp: DeleteProduct_body_def prog_defs session_defs u_def
      split: sum.splits option.splits prod.splits if_splits)

text \<open>
  C10: every method of the SOAP service returns a text, for every input, every world
  and every outcome of the store; neither the ValueError of a validation nor the
  SQLAlchemyError of the store leaves the method. The text starts with \<open>Error: \<close>
  exactly when the statements under \<open>try:\<close> raised.
\<close>

theorem soap_methods_return_text:
  "(\<exists>s w'. CreateProduct f n p q w = (Inr s, w') \<and>
      (prefix (u ''Error: '') s \<longleftrightarrow> (\<exists>e. fst (CreateProduct_body f n p q w) = Inl e))) \<and>
   (\<exists>s w'. GetProduct sf f i w = (Inr s, w') \<and>
      (prefix (u ''Error: '') s \<longleftrightarrow> (\<exists>e. fst (GetProduct_body sf f i w) = Inl e))) \<and>
   (\<exists>s w'. UpdateProduct f i n p q w = (Inr s, w') \<and>
      (prefix (u ''Error: '') s \<longleftrightarrow> (\<exists>e. fst (UpdateProduct_body f i n p q w) = Inl e))) \<and>
   (\<exists>s w'. DeleteProduct f i w = (Inr s, w') \<and>
      (prefix (u ''Error: '') s \<longleftrightarrow> (\<exists>e. fst (DeleteProduct_body f i w) = Inl e)))"
  unfolding CreateProduct_def GetProduct_def UpdateProduct_def DeleteProduct_def
  by (intro conjI except_error_text_total
      CreateProduct_body_raises GetProduct_body_raises UpdateProduct_body_raises
      DeleteProduct_body_raises CreateProduct_body_text GetProduct_body_text
      UpdateProduct_body_text DeleteProduct_body_text)

theorem soap_methods_return_text_witness:
  "(\<exists>s w'. CreateProduct commit_down (u ''Widget'') (Finite (999 / 100)) 5 initial_world = (Inr s, w') \<and>
      prefix (u ''Error: '') s) \<and>
   (\<exists>s w'. GetProduct (\<lambda>x. u ''9.99'') no_faults 1 stocked_world = (Inr s, w') \<and>
      \<not> prefix (u ''Error: '') s) \<and>
   (\<exists>s w'. UpdateProduct no_faults 1 [] (Finite 1) 1 stocked_world = (Inr s, w') \<and>
      prefix (u ''Error: '') s) \<and>
   (\<exists>s w'. DeleteProduct no_faults 0 stocked_world = (Inr s, w') \<and>
      prefix (u ''Error: '') s)"
proof -
  have c: "fst (CreateProduct_body commit_down (u ''Widget'') (Finite (999 / 100)) 5 initial_world) =
      Inl (SQLAlchemyError (u ''connection lost''))"
    by (simp add: soap_defs prog_defs session_defs run_defs)
  have g: "fst (GetProduct_body (\<lambda>x. u ''9.99'') no_faults 1 stocked_world) =
      Inr (u ''ID=1, Name=Widget, Price=9.99, Quantity=5'')"
    by (simp add: soap_defs prog_defs session_defs run_defs str_int_def)
  have v: "fst (UpdateProduct_body no_faults 1 [] (Finite 1) 1 stocked_world) =
      Inl (ValueError (u ''Name cannot be empty''))"
    by (simp add: soap_defs prog_defs session_defs run_defs)
  have d: "fst (DeleteProduct_body no_faults 0 stocked_world) =
      Inl (ValueError (u ''Invalid Product ID (must be > 0)''))"
    by (simp add: soap_defs prog_defs session_defs run_defs)
  from soap_methods_return_text [where f = commit_down and n = "u ''Widget''"
      and p = "Finite (999 / 100)" and q = 5 and w = initial_world]
  have "\<exists>s w'. CreateProduct commit_down (u ''Widget'') (Finite (999 / 100)) 5 initial_world = (Inr s, w') \<and>
      prefix (u ''Error: '') s"
    using c by simp
  moreover
  from soap_methods_return_text [where f = no_faults and n = "[]" and p = "Finite 1" and q = 1
      and w = stocked_world and sf = "\<lambda>x. u ''9.99''" and i = 1]
  have "\<exists>s w'. GetProduct (\<lambda>x. u ''9.99'') no_faults 1 stocked_world = (Inr s, w') \<and>
      \<not> prefix (u ''Error: '') s"
    "\<exists>s w'. UpdateProduct no_faults 1 [] (Finite 1) 1 stocked_world = (Inr s, w') \<and>
      prefix (u ''Error: '') s"
    using g v by simp_all
  moreover
  from soap_methods_return_text [where f = no_faults and w = stocked_world and i = 0]
  have "\<exists>s w'. DeleteProduct no_faults 0 stocked_world = (Inr s, w') \<and>
      prefix (u ''Error: '') s"
    using d by simp
  ultimately show ?thesis by blast
qed

end
